theory Spec2Isabelle
  imports Main "HOL-Library.Sublist"
begin

section \<open>Python values, errors and the outside world\<close>

text \<open>
  The generator is a Python program. Its exceptions are values of \<open>py_error\<close>; a call
  that may raise returns \<open>py_error + 'a\<close> with \<open>Inl\<close> for the exception.
\<close>

datatype py_error =
    KeyError string
  | TypeError
  | ValueError
  | ReError
  | JSONDecodeError
  | OSError
  | EOFError
  | WebDriverError

text \<open>
  What \<open>json.loads\<close> returns and \<open>json.dumps\<close> accepts. A Python dict is an association
  list read with \<open>map_of\<close>. Floating-point numbers are left out.
\<close>

datatype json =
    JNull
  | JBool bool
  | JInt int
  | JStr string
  | JArr "json list"
  | JObj "(string \<times> json) list"

text \<open>An element of a parsed page: its text and its attributes.\<close>

record element =
  el_text :: string
  el_attrs :: "(string \<times> string) list"

text \<open>
  The libraries the program calls (\<open>re\<close>, \<open>json\<close>, \<open>ast\<close>, BeautifulSoup, splinter, the
  file system's permissions) are parameters, collected in one record:
  \<^item> \<open>re_compile p\<close> is \<open>re.compile(p, re.IGNORECASE)\<close>: \<open>re.error\<close> for an ill-formed
    pattern, otherwise the predicate "the pattern is found somewhere in the string";
  \<^item> \<open>page_of url\<close> is what a browser shows after \<open>visit(url)\<close>, or the error it raises;
  \<^item> \<open>soup_select html sel\<close> and \<open>soup_find_all html tag\<close> are \<open>select\<close> and \<open>find_all\<close>
    of the soup parsed from \<open>html\<close>, in document order;
  \<^item> \<open>json_dumps\<close>, \<open>json_loads\<close> and \<open>literal_eval\<close> are the functions of these names;
  \<^item> \<open>can_write path\<close> tells whether \<open>open(path, "w")\<close> succeeds.
\<close>

record env =
  re_compile :: "string \<Rightarrow> py_error + (string \<Rightarrow> bool)"
  page_of :: "string \<Rightarrow> py_error + string"
  soup_select :: "string \<Rightarrow> string \<Rightarrow> element list"
  soup_find_all :: "string \<Rightarrow> string \<Rightarrow> element list"
  json_dumps :: "json \<Rightarrow> string"
  json_loads :: "string \<Rightarrow> py_error + json"
  literal_eval :: "string \<Rightarrow> py_error + json"
  can_write :: "string \<Rightarrow> bool"

text \<open>
  What the program prints: the argument of each \<open>print_info\<close>, \<open>print_warn\<close> and \<open>print\<close>
  call, with the values that are formatted into the text kept as they are.
\<close>

datatype msg =
    InfoExcluding string string
  | InfoSearching json
  | InfoConstructed string string
  | InfoCreated int
  | InfoFound string
  | WarnInvalid
  | PrintLoaded json
  | PrintElems "element list"

text \<open>
  The state the program changes: the lines printed so far, the browser sessions that are
  open (a session is a number), the page each session shows, the files on disk and the
  lines still to be typed by the user.
\<close>

record world =
  out :: "msg list"
  sessions :: "nat list"
  pages :: "nat \<Rightarrow> string"
  files :: "string \<rightharpoonup> string"
  stdin :: "string list"

subsection \<open>globals.py\<close>

definition NULL_NAME_STRING :: string where
  "NULL_NAME_STRING = ''NoNameFound''"

definition NULL_IMAGE_STRING :: string where
  "NULL_IMAGE_STRING = ''NoImageURLFound''"

definition BASE_SITE :: string where
  "BASE_SITE = ''https://www.flightclub.com''"

definition BASE_SEARCH_SITE :: string where
  "BASE_SEARCH_SITE = BASE_SITE @ ''/catalogsearch/result/?q=''"

definition PRINT_INFO :: bool where
  "PRINT_INFO = True"

definition print_info :: "msg \<Rightarrow> world \<Rightarrow> world" where
  "print_info output w = (if PRINT_INFO then w\<lparr>out := out w @ [output]\<rparr> else w)"

definition print_warn :: "msg \<Rightarrow> world \<Rightarrow> world" where
  "print_warn output w = w\<lparr>out := out w @ [output]\<rparr>"

subsection \<open>Built-in operations\<close>

text \<open>\<open>obj[key]\<close> for a string key: only a dict has string keys.\<close>

fun py_getitem :: "json \<Rightarrow> string \<Rightarrow> py_error + json" where
  "py_getitem (JObj kvs) k = (case map_of kvs k of None \<Rightarrow> Inl (KeyError k) | Some v \<Rightarrow> Inr v)"
| "py_getitem _ k = Inl TypeError"

text \<open>\<open>elem[attr]\<close> on a page element.\<close>

definition el_getitem :: "element \<Rightarrow> string \<Rightarrow> py_error + string" where
  "el_getitem elem k = (case map_of (el_attrs elem) k of None \<Rightarrow> Inl (KeyError k) | Some v \<Rightarrow> Inr v)"

text \<open>\<open>str(n)\<close> for an integer.\<close>

fun digits :: "nat \<Rightarrow> string" where
  "digits n = (if n < 10 then [''0123456789'' ! n] else digits (n div 10) @ [''0123456789'' ! (n mod 10)])"

declare digits.simps [simp del]

definition py_str_int :: "int \<Rightarrow> string" where
  "py_str_int i = (if i < 0 then CHR ''-'' # digits (nat (- i)) else digits (nat i))"

subsection \<open>Browser sessions (splinter)\<close>

text \<open>
  \<open>Browser()\<close> opens a session under a number no open session has; it shows an empty
  page. \<open>visit\<close> loads a page or raises; \<open>quit\<close> closes the session.
\<close>

definition fresh_session :: "nat list \<Rightarrow> nat" where
  "fresh_session ss = (if ss = [] then 0 else Suc (Max (set ss)))"

definition Browser :: "world \<Rightarrow> nat \<times> world" where
  "Browser w =
     (let b = fresh_session (sessions w)
      in (b, w\<lparr>sessions := sessions w @ [b], pages := (pages w)(b := [])\<rparr>))"

definition visit :: "env \<Rightarrow> nat \<Rightarrow> string \<Rightarrow> world \<Rightarrow> (py_error + unit) \<times> world" where
  "visit E b url w =
     (case page_of E url of
        Inl e \<Rightarrow> (Inl e, w)
      | Inr h \<Rightarrow> (Inr (), w\<lparr>pages := (pages w)(b := h)\<rparr>))"

definition quit :: "nat \<Rightarrow> world \<Rightarrow> world" where
  "quit b w = w\<lparr>sessions := removeAll b (sessions w)\<rparr>"

section \<open>shoepair.py\<close>

record shoe_pair =
  sp_excluded :: bool
  sp_name :: string
  sp_image :: string

definition NAME_SELECTOR :: string where
  "NAME_SELECTOR = ''div[class='mb-padding product-name hidden-phone'] > h1''"

definition IMAGE_SELECTOR :: string where
  "IMAGE_SELECTOR = ''div[class='product-image product-img-box'] > img[class='product-img']''"

text \<open>The loop of \<open>_search\<close> over the \<open>a\<close> elements of the search page.\<close>

fun follow_link :: "env \<Rightarrow> string \<Rightarrow> nat \<Rightarrow> element list \<Rightarrow> world \<Rightarrow> (py_error + nat) \<times> world" where
  "follow_link E ident browser [] w = (Inr browser, w)"
| "follow_link E ident browser (aelem # rest) w =
     (case el_getitem aelem ''href'' of
        Inl e \<Rightarrow> (Inl e, w)
      | Inr href \<Rightarrow>
          if sublist (''-'' @ ident) href then
            (let (nbrowser, w1) = Browser w
             in case visit E nbrowser href w1 of
                  (Inl e, w2) \<Rightarrow> (Inl e, w2)
                | (Inr u, w2) \<Rightarrow> (Inr nbrowser, quit browser w2))
          else follow_link E ident browser rest w)"

text \<open>
  \<open>ShoePair._search\<close>. The id comes from the catalog's JSON; \<open>BASE_SEARCH_SITE + id\<close>
  raises \<open>TypeError\<close> unless it is a string, after the browser has been opened.
\<close>

definition ShoePair_search :: "env \<Rightarrow> json \<Rightarrow> world \<Rightarrow> (py_error + nat) \<times> world" where
  "ShoePair_search E ident w =
     (let w0 = print_info (InfoSearching ident) w;
          (browser, w1) = Browser w0
      in case ident of
           JStr s \<Rightarrow>
             (case visit E browser (BASE_SEARCH_SITE @ s) w1 of
                (Inl e, w2) \<Rightarrow> (Inl e, w2)
              | (Inr u, w2) \<Rightarrow>
                  follow_link E s browser (soup_find_all E (pages w2 browser) ''a'') w2)
         | _ \<Rightarrow> (Inl TypeError, w1))"

definition evaluate_soup_select :: "env \<Rightarrow> string \<Rightarrow> string \<Rightarrow> element option" where
  "evaluate_soup_select E beautiful tag =
     (let elem = soup_select E beautiful tag
      in if length elem = 0 then None else Some (elem ! 0))"

definition get_shoe_image :: "env \<Rightarrow> nat \<Rightarrow> world \<Rightarrow> py_error + string" where
  "get_shoe_image E bs w =
     (case evaluate_soup_select E (pages w bs) IMAGE_SELECTOR of
        None \<Rightarrow> Inr NULL_IMAGE_STRING
      | Some elem \<Rightarrow> el_getitem elem ''src'')"

definition get_shoe_name :: "env \<Rightarrow> nat \<Rightarrow> world \<Rightarrow> string" where
  "get_shoe_name E bs w =
     (case evaluate_soup_select E (pages w bs) NAME_SELECTOR of
        None \<Rightarrow> NULL_NAME_STRING
      | Some sel_element \<Rightarrow> el_text sel_element)"

text \<open>\<open>ShoePair.__init__\<close>: the browser is quit on the last line, after both extractions.\<close>

definition ShoePair_init :: "env \<Rightarrow> json \<Rightarrow> world \<Rightarrow> (py_error + shoe_pair) \<times> world" where
  "ShoePair_init E ident w =
     (case ShoePair_search E ident w of
        (Inl e, w1) \<Rightarrow> (Inl e, w1)
      | (Inr brow, w1) \<Rightarrow>
          (let name = get_shoe_name E brow w1
           in case get_shoe_image E brow w1 of
                Inl e \<Rightarrow> (Inl e, w1)
              | Inr img \<Rightarrow>
                  (Inr \<lparr>sp_excluded = False, sp_name = name, sp_image = img\<rparr>,
                   quit brow (print_info (InfoConstructed name img) w1))))"

section \<open>generator.py\<close>

text \<open>
  The loop of \<open>create_shoe_pair\<close> over the exclude tags: \<open>re.search(etag, name,
  re.IGNORECASE)\<close> compiles the tag, then searches the name, which must be a string.
  The result is the name and the tag of the first match, if any.
\<close>

fun scan_tags :: "env \<Rightarrow> json \<Rightarrow> string list \<Rightarrow> py_error + (string \<times> string) option" where
  "scan_tags E name [] = Inr None"
| "scan_tags E name (etag # rest) =
     (case re_compile E etag of
        Inl e \<Rightarrow> Inl e
      | Inr found_in \<Rightarrow>
          (case name of
             JStr s \<Rightarrow> if found_in s then Inr (Some (s, etag)) else scan_tags E name rest
           | _ \<Rightarrow> Inl TypeError))"

definition create_shoe_pair ::
  "env \<Rightarrow> json \<Rightarrow> string list \<Rightarrow> world \<Rightarrow> (py_error + shoe_pair option) \<times> world" where
  "create_shoe_pair E idobj excludetags w =
     (case py_getitem idobj ''name'' of
        Inl e \<Rightarrow> (Inl e, w)
      | Inr name \<Rightarrow>
          (case scan_tags E name excludetags of
             Inl e \<Rightarrow> (Inl e, w)
           | Inr (Some (s, etag)) \<Rightarrow> (Inr None, print_info (InfoExcluding s etag) w)
           | Inr None \<Rightarrow>
               (case py_getitem idobj ''id'' of
                  Inl e \<Rightarrow> (Inl e, w)
                | Inr ident \<Rightarrow>
                    (case ShoePair_init E ident w of
                       (Inl e, w1) \<Rightarrow> (Inl e, w1)
                     | (Inr sp, w1) \<Rightarrow> (Inr (Some sp), w1)))))"

definition create_file ::
  "env \<Rightarrow> string \<Rightarrow> string \<Rightarrow> string \<Rightarrow> string \<Rightarrow> world \<Rightarrow> (py_error + unit) \<times> world" where
  "create_file E dname name shoename imgval w =
     (let path = dname @ name @ ''.json''
      in if can_write E path
         then (Inr (), w\<lparr>files := (files w)(path \<mapsto>
                 json_dumps E (JObj [(''name'', JStr shoename), (''img'', JStr imgval)]))\<rparr>)
         else (Inl OSError, w))"

text \<open>The loop of \<open>create_all_files\<close>, with \<open>current_filenum\<close> as an argument.\<close>

fun create_all_loop ::
  "env \<Rightarrow> string \<Rightarrow> json list \<Rightarrow> string list \<Rightarrow> int \<Rightarrow> world \<Rightarrow> (py_error + int) \<times> world" where
  "create_all_loop E directory [] excludetags current_filenum w = (Inr current_filenum, w)"
| "create_all_loop E directory (shoe # rest) excludetags current_filenum w =
     (case create_shoe_pair E shoe excludetags w of
        (Inl e, w1) \<Rightarrow> (Inl e, w1)
      | (Inr None, w1) \<Rightarrow> create_all_loop E directory rest excludetags current_filenum w1
      | (Inr (Some sp), w1) \<Rightarrow>
          (case create_file E directory (py_str_int (current_filenum + 1))
                  (sp_name sp) (sp_image sp) w1 of
             (Inl e, w2) \<Rightarrow> (Inl e, w2)
           | (Inr u, w2) \<Rightarrow>
               create_all_loop E directory rest excludetags (current_filenum + 1)
                 (print_info (InfoCreated (current_filenum + 1)) w2)))"

definition create_all_files ::
  "env \<Rightarrow> string \<Rightarrow> json list \<Rightarrow> string list \<Rightarrow> int \<Rightarrow> world \<Rightarrow> (py_error + int) \<times> world" where
  "create_all_files E directory shoelist excludetags startnum w =
     create_all_loop E directory shoelist excludetags (startnum - 1) w"

text \<open>
  The pattern of \<open>get_impressions_list\<close> is \<open>'impressions': \[(.*?)\]\<close>: the marker, then
  as few characters as possible other than a line feed, then a closing bracket.
  \<open>until_bracket\<close> is the group at a position just after the marker, and
  \<open>impressions_search\<close> is \<open>regex.search(text).group(1)\<close>, the leftmost match.
\<close>

definition IMPRESSIONS_MARKER :: string where
  "IMPRESSIONS_MARKER = [CHR 0x27] @ ''impressions'' @ [CHR 0x27] @ '': [''"

fun until_bracket :: "string \<Rightarrow> string option" where
  "until_bracket [] = None"
| "until_bracket (c # cs) =
     (if c = CHR '']'' then Some []
      else if c = CHR 0x0A then None
      else (case until_bracket cs of None \<Rightarrow> None | Some g \<Rightarrow> Some (c # g)))"

fun impressions_search :: "string \<Rightarrow> string option" where
  "impressions_search [] = None"
| "impressions_search (c # cs) =
     (case (if prefix IMPRESSIONS_MARKER (c # cs)
            then until_bracket (drop (length IMPRESSIONS_MARKER) (c # cs)) else None) of
        Some g \<Rightarrow> Some g
      | None \<Rightarrow> impressions_search cs)"

definition FALLBACK_LIST :: json where
  "FALLBACK_LIST = JArr [JObj [(''name'', JStr ''NULL'')]]"

text \<open>The soup is the page's text; \<open>find("script", text=regex)\<close> is the first script
  element whose text the pattern is found in.\<close>

definition get_impressions_list :: "env \<Rightarrow> string \<Rightarrow> world \<Rightarrow> (py_error + json) \<times> world" where
  "get_impressions_list E bsoup w =
     (case find (\<lambda>tag. impressions_search (el_text tag) \<noteq> None)
             (soup_find_all E bsoup ''script'') of
        None \<Rightarrow> (Inr FALLBACK_LIST, w)
      | Some script_tag \<Rightarrow>
          (case impressions_search (el_text script_tag) of
             None \<Rightarrow> (Inr FALLBACK_LIST, w)
           | Some part \<Rightarrow>
               (let w1 = print_info (InfoFound part) w
                in case json_loads E (''['' @ part @ '']'') of
                     Inl e \<Rightarrow> (Inl e, w1)
                   | Inr loaded \<Rightarrow> (Inr loaded, w1))))"

definition create_execution_file ::
  "env \<Rightarrow> string \<Rightarrow> string \<Rightarrow> string \<Rightarrow> json \<Rightarrow> int \<Rightarrow> world \<Rightarrow> (py_error + unit) \<times> world" where
  "create_execution_file E name site dir exclude_list start w =
     (if can_write E name
      then (Inr (), w\<lparr>files := (files w)(name \<mapsto>
              json_dumps E (JObj [(''site'', JStr site), (''dir'', JStr dir),
                                  (''exclude_list'', exclude_list), (''start'', JInt start)]))\<rparr>)
      else (Inl OSError, w))"

text \<open>\<open>isinstance(loaded, dict)\<close> and \<open>key in loaded\<close>.\<close>

fun is_dict :: "json \<Rightarrow> bool" where
  "is_dict (JObj kvs) = True"
| "is_dict _ = False"

fun py_in :: "string \<Rightarrow> json \<Rightarrow> bool" where
  "py_in k (JObj kvs) = (map_of kvs k \<noteq> None)"
| "py_in k _ = False"

text \<open>The result of \<open>read_execution_file\<close> is the error string and the loaded dict,
  \<open>None\<close> when the error string is not empty.\<close>

definition read_execution_file ::
  "env \<Rightarrow> string \<Rightarrow> world \<Rightarrow> (py_error + string \<times> json option) \<times> world" where
  "read_execution_file E path w =
     (case files w path of
        None \<Rightarrow> (Inl OSError, w)
      | Some text \<Rightarrow>
          (case json_loads E text of
             Inl e \<Rightarrow> (Inl e, w)
           | Inr loaded \<Rightarrow>
               (let w1 = w\<lparr>out := out w @ [PrintLoaded loaded]\<rparr>
                in if is_dict loaded then
                     (if \<not> py_in ''site'' loaded then (Inr (''Missing site value'', None), w1)
                      else if \<not> py_in ''dir'' loaded then (Inr (''Missing dir value'', None), w1)
                      else if \<not> py_in ''exclude_list'' loaded
                        then (Inr (''Missing exclude_list value'', None), w1)
                      else if \<not> py_in ''start'' loaded
                        then (Inr (''Missing start value'', None), w1)
                      else (Inr ([], Some loaded), w1))
                   else (Inr (''Loaded JSON should be a dict ( {} )!'', None), w1))))"

subsection \<open>Console input\<close>

text \<open>\<open>input(prompt)\<close> takes the next line the user types; the prompt is not recorded.\<close>

definition input :: "world \<Rightarrow> (py_error + string) \<times> world" where
  "input w = (case stdin w of [] \<Rightarrow> (Inl EOFError, w) | l # ls \<Rightarrow> (Inr l, w\<lparr>stdin := ls\<rparr>))"

text \<open>
  \<open>int(s)\<close> for a string: white space around it is dropped, then come an optional sign
  and decimal digits, where single underscores may separate digits. Anything else raises
  \<open>ValueError\<close>. The white space that \<open>int\<close> drops is the space, the characters 9 to 13
  and, above ASCII, the characters 133 and 160; the separators 28 to 31 are not
  part of it. Versions of Python that bound the number of digits raise \<open>ValueError\<close>
  beyond the bound as well; the bound is left out here.
\<close>

definition is_space :: "char \<Rightarrow> bool" where
  "is_space c =
     (c = CHR '' '' \<or> (9 \<le> (of_char c :: nat) \<and> (of_char c :: nat) \<le> 13) \<or>
      (of_char c :: nat) = 133 \<or> (of_char c :: nat) = 160)"

definition py_strip :: "string \<Rightarrow> string" where
  "py_strip s = rev (dropWhile is_space (rev (dropWhile is_space s)))"

definition is_digit :: "char \<Rightarrow> bool" where
  "is_digit c = (48 \<le> (of_char c :: nat) \<and> (of_char c :: nat) \<le> 57)"

definition digit_val :: "char \<Rightarrow> nat" where
  "digit_val c = of_char c - 48"

fun int_body :: "bool \<Rightarrow> string \<Rightarrow> bool" where
  "int_body after_digit [] = after_digit"
| "int_body after_digit (c # cs) =
     (if is_digit c then int_body True cs
      else if c = CHR ''_'' then after_digit \<and> int_body False cs
      else False)"

definition digits_value :: "string \<Rightarrow> nat" where
  "digits_value ds = foldl (\<lambda>a c. 10 * a + digit_val c) 0 (filter is_digit ds)"

definition py_int :: "string \<Rightarrow> py_error + int" where
  "py_int s =
     (let t = py_strip s;
          signed = (case t of [] \<Rightarrow> False | c # r \<Rightarrow> c = CHR ''-'' \<or> c = CHR ''+'');
          negative = (case t of [] \<Rightarrow> False | c # r \<Rightarrow> c = CHR ''-'');
          body = (if signed then tl t else t)
      in if int_body False body
         then Inr (if negative then - int (digits_value body) else int (digits_value body))
         else Inl ValueError)"

text \<open>
  \<open>prompt_execution_values\<close>. The \<open>try\<close> around \<open>int(input(...))\<close> has one handler,
  \<open>except TypeError\<close>: any other exception leaves the function.
\<close>

definition prompt_execution_values :: "env \<Rightarrow> world \<Rightarrow> (py_error + unit) \<times> world" where
  "prompt_execution_values E w =
     (case input w of
        (Inl e, w1) \<Rightarrow> (Inl e, w1)
      | (Inr ej_name, w1) \<Rightarrow>
     (case input w1 of
        (Inl e, w2) \<Rightarrow> (Inl e, w2)
      | (Inr site_dir, w2) \<Rightarrow>
     (case input w2 of
        (Inl e, w3) \<Rightarrow> (Inl e, w3)
      | (Inr typed_dir, w3) \<Rightarrow>
     (case input w3 of
        (Inl e, w4) \<Rightarrow> (Inl e, w4)
      | (Inr use_tags, w4) \<Rightarrow>
     (case (if use_tags = ''y''
            then (case input w4 of
                    (Inl e, w5) \<Rightarrow> (Inl e, w5)
                  | (Inr typed_tags, w5) \<Rightarrow> (literal_eval E (''['' @ typed_tags @ '']''), w5))
            else (Inr (JArr []), w4)) of
        (Inl e, w5) \<Rightarrow> (Inl e, w5)
      | (Inr exclude_list, w5) \<Rightarrow>
     (case input w5 of
        (Inl e, w6) \<Rightarrow> (Inl e, w6)
      | (Inr typed_start, w6) \<Rightarrow>
     (case (case py_int typed_start of
              Inl TypeError \<Rightarrow> (Inr 1, print_warn WarnInvalid w6)
            | Inl e \<Rightarrow> (Inl e, w6)
            | Inr n \<Rightarrow> (Inr n, w6)) of
        (Inl e, w7) \<Rightarrow> (Inl e, w7)
      | (Inr start, w7) \<Rightarrow>
          create_execution_file E ej_name (BASE_SITE @ ''/'' @ site_dir)
            (if typed_dir = [] then ''./'' else typed_dir) exclude_list start w7)))))))"

section \<open>gys-generator.py\<close>

text \<open>The older, single-file generator: its \<open>ShoePair\<close> searches by name and stays on the
  search page, and its \<open>_evaluate_soup_select\<close> prints what it selected.\<close>

definition GYS_NAME_SELECTOR :: string where
  "GYS_NAME_SELECTOR = ''p[class='result-title text-ellipsis']''"

definition GYS_IMAGE_SELECTOR :: string where
  "GYS_IMAGE_SELECTOR = ''img[class='product-img']''"

definition gys_ShoePair_search :: "env \<Rightarrow> json \<Rightarrow> world \<Rightarrow> (py_error + nat) \<times> world" where
  "gys_ShoePair_search E ident w =
     (let (browser, w1) = Browser w
      in case ident of
           JStr s \<Rightarrow>
             (case visit E browser (BASE_SEARCH_SITE @ s) w1 of
                (Inl e, w2) \<Rightarrow> (Inl e, w2)
              | (Inr u, w2) \<Rightarrow> (Inr browser, w2))
         | _ \<Rightarrow> (Inl TypeError, w1))"

definition gys_evaluate_soup_select :: "env \<Rightarrow> string \<Rightarrow> string \<Rightarrow> world \<Rightarrow> element option \<times> world" where
  "gys_evaluate_soup_select E beautiful tag w =
     (let elem = soup_select E beautiful tag;
          w1 = w\<lparr>out := out w @ [PrintElems elem]\<rparr>
      in if length elem = 0 then (None, w1) else (Some (elem ! 0), w1))"

definition gys_get_shoe_image :: "env \<Rightarrow> nat \<Rightarrow> world \<Rightarrow> (py_error + string) \<times> world" where
  "gys_get_shoe_image E bs w =
     (case gys_evaluate_soup_select E (pages w bs) GYS_IMAGE_SELECTOR w of
        (None, w1) \<Rightarrow> (Inr NULL_IMAGE_STRING, w1)
      | (Some elem, w1) \<Rightarrow> (el_getitem elem ''src'', w1))"

definition gys_get_shoe_name :: "env \<Rightarrow> nat \<Rightarrow> world \<Rightarrow> string \<times> world" where
  "gys_get_shoe_name E bs w =
     (case gys_evaluate_soup_select E (pages w bs) GYS_NAME_SELECTOR w of
        (None, w1) \<Rightarrow> (NULL_NAME_STRING, w1)
      | (Some sel_element, w1) \<Rightarrow> (el_text sel_element, w1))"

definition gys_ShoePair_init :: "env \<Rightarrow> json \<Rightarrow> world \<Rightarrow> (py_error + shoe_pair) \<times> world" where
  "gys_ShoePair_init E ident w =
     (case gys_ShoePair_search E ident w of
        (Inl e, w1) \<Rightarrow> (Inl e, w1)
      | (Inr brow, w1) \<Rightarrow>
          (let (name, w2) = gys_get_shoe_name E brow w1
           in case gys_get_shoe_image E brow w2 of
                (Inl e, w3) \<Rightarrow> (Inl e, w3)
              | (Inr img, w3) \<Rightarrow>
                  (Inr \<lparr>sp_excluded = False, sp_name = name, sp_image = img\<rparr>,
                   quit brow (print_info (InfoConstructed name img) w3))))"

definition gys_create_shoe_pair ::
  "env \<Rightarrow> json \<Rightarrow> string list \<Rightarrow> world \<Rightarrow> (py_error + shoe_pair option) \<times> world" where
  "gys_create_shoe_pair E idobj excludetags w =
     (case py_getitem idobj ''name'' of
        Inl e \<Rightarrow> (Inl e, w)
      | Inr name \<Rightarrow>
          (case scan_tags E name excludetags of
             Inl e \<Rightarrow> (Inl e, w)
           | Inr (Some (s, etag)) \<Rightarrow> (Inr None, print_info (InfoExcluding s etag) w)
           | Inr None \<Rightarrow>
               (case gys_ShoePair_init E name w of
                  (Inl e, w1) \<Rightarrow> (Inl e, w1)
                | (Inr sp, w1) \<Rightarrow> (Inr (Some sp), w1))))"

section \<open>Notions of the specification\<close>

text \<open>A tag matches a name when it is a well-formed pattern that is found in the name,
  ignoring case; \<open>tag_valid\<close> says that the tag is a well-formed pattern.\<close>

definition tag_matches :: "env \<Rightarrow> string \<Rightarrow> string \<Rightarrow> bool" where
  "tag_matches E name etag = (case re_compile E etag of Inl e \<Rightarrow> False | Inr found_in \<Rightarrow> found_in name)"

definition tag_valid :: "env \<Rightarrow> string \<Rightarrow> bool" where
  "tag_valid E etag = (case re_compile E etag of Inl e \<Rightarrow> False | Inr found_in \<Rightarrow> True)"

text \<open>A candidate is excluded when it carries a name and the loop over the tags ends
  in a match; the kept candidates are the others, in catalog order.\<close>

definition is_excluded :: "env \<Rightarrow> string list \<Rightarrow> json \<Rightarrow> bool" where
  "is_excluded E excludetags idobj =
     (case py_getitem idobj ''name'' of
        Inl e \<Rightarrow> False
      | Inr name \<Rightarrow>
          (case scan_tags E name excludetags of
             Inl e \<Rightarrow> False
           | Inr None \<Rightarrow> False
           | Inr (Some m) \<Rightarrow> True))"

definition kept_candidates :: "env \<Rightarrow> string list \<Rightarrow> json list \<Rightarrow> json list" where
  "kept_candidates E excludetags shoelist = filter (\<lambda>idobj. \<not> is_excluded E excludetags idobj) shoelist"

text \<open>The output file of a sequence number, and what is written for a resolved pair.\<close>

definition output_path :: "string \<Rightarrow> int \<Rightarrow> string" where
  "output_path directory k = directory @ py_str_int k @ ''.json''"

definition output_record :: "shoe_pair \<Rightarrow> json" where
  "output_record sp = JObj [(''name'', JStr (sp_name sp)), (''img'', JStr (sp_image sp))]"

text \<open>The required fields of a descriptor in their fixed order, and the first one that
  a mapping lacks.\<close>

definition REQUIRED_FIELDS :: "string list" where
  "REQUIRED_FIELDS = [''site'', ''dir'', ''exclude_list'', ''start'']"

definition first_missing :: "json \<Rightarrow> string option" where
  "first_missing loaded = find (\<lambda>k. \<not> py_in k loaded) REQUIRED_FIELDS"

text \<open>
  Following the specification's words for the link that \<open>_search\<close> looks for: the target
  contains the id as the suffix of one of its path segments, the pieces between slashes.
\<close>

fun split_on :: "char \<Rightarrow> string \<Rightarrow> string list" where
  "split_on sep [] = [[]]"
| "split_on sep (c # cs) =
     (if c = sep then [] # split_on sep cs
      else (case split_on sep cs of [] \<Rightarrow> [[c]] | seg # segs \<Rightarrow> (c # seg) # segs))"

definition id_is_segment_suffix :: "string \<Rightarrow> string \<Rightarrow> bool" where
  "id_is_segment_suffix ident href = list_ex (suffix ident) (split_on (CHR ''/'') href)"

text \<open>What the code tests: \<open>"-" + id in href\<close>.\<close>

definition link_matches :: "string \<Rightarrow> element \<Rightarrow> bool" where
  "link_matches ident aelem =
     (case el_getitem aelem ''href'' of Inl e \<Rightarrow> False | Inr href \<Rightarrow> sublist (''-'' @ ident) href)"

definition has_href :: "element \<Rightarrow> bool" where
  "has_href aelem = (case el_getitem aelem ''href'' of Inl e \<Rightarrow> False | Inr href \<Rightarrow> True)"

text \<open>
  What an item resolves to from what the two selectors select on the active page: the
  text of the first name element and the \<open>src\<close> attribute of the first image element,
  a sentinel standing for an element that is missing.
\<close>

definition name_of_selection :: "element list \<Rightarrow> string" where
  "name_of_selection selected = (case selected of [] \<Rightarrow> ''NoNameFound'' | elem # rest \<Rightarrow> el_text elem)"

definition image_of_selection :: "element list \<Rightarrow> py_error + string" where
  "image_of_selection selected =
     (case selected of [] \<Rightarrow> Inr ''NoImageURLFound'' | elem # rest \<Rightarrow> el_getitem elem ''src'')"

text \<open>The dict that \<open>create_execution_file\<close> writes.\<close>

definition descriptor :: "string \<Rightarrow> string \<Rightarrow> json \<Rightarrow> int \<Rightarrow> json" where
  "descriptor site dir exclude_list start =
     JObj [(''site'', JStr site), (''dir'', JStr dir), (''exclude_list'', exclude_list), (''start'', JInt start)]"

text \<open>The numbers of the \<open>Created file\<close> lines among what was printed, in order.\<close>

fun created_numbers :: "msg list \<Rightarrow> int list" where
  "created_numbers [] = []"
| "created_numbers (InfoCreated k # ms) = k # created_numbers ms"
| "created_numbers (m # ms) = created_numbers ms"

text \<open>The files after the records of the given candidates have been written under
  consecutive numbers from \<open>k\<close> on, \<open>sp_of\<close> giving the pair each candidate resolves to.\<close>

fun emit_numbered ::
  "env \<Rightarrow> string \<Rightarrow> (json \<Rightarrow> shoe_pair) \<Rightarrow> int \<Rightarrow> json list \<Rightarrow> (string \<rightharpoonup> string) \<Rightarrow> (string \<rightharpoonup> string)" where
  "emit_numbered E directory sp_of k [] fs = fs"
| "emit_numbered E directory sp_of k (idobj # rest) fs =
     emit_numbered E directory sp_of (k + 1) rest
       (fs(output_path directory k \<mapsto> json_dumps E (output_record (sp_of idobj))))"

section \<open>A reference environment\<close>

text \<open>
  Concrete libraries and a small site, to run the program on concrete inputs. The
  theorems about the program hold for every environment; the ones evaluated at a concrete
  input use this one.
\<close>

subsection \<open>Patterns without metacharacters\<close>

text \<open>
  A pattern without a metacharacter is found where it occurs as it is, ignoring the case
  of ASCII letters, as \<open>re.search\<close> with \<open>re.IGNORECASE\<close> finds it. A pattern with a
  metacharacter is rejected here; \<open>re\<close> rejects the ill-formed ones among them, such as a
  lone opening parenthesis, which is the only such pattern evaluated below.
\<close>

definition RE_METACHARS :: string where
  "RE_METACHARS = ''.^$*+?{}[]|()'' @ [CHR 0x5C]"

definition ascii_lower :: "char \<Rightarrow> char" where
  "ascii_lower c =
     (if 65 \<le> (of_char c :: nat) \<and> (of_char c :: nat) \<le> 90 then char_of ((of_char c :: nat) + 32) else c)"

definition literal_re_compile :: "string \<Rightarrow> py_error + (string \<Rightarrow> bool)" where
  "literal_re_compile p =
     (if list_ex (\<lambda>c. List.member RE_METACHARS c) p then Inl ReError
      else Inr (\<lambda>s. sublist (map ascii_lower p) (map ascii_lower s)))"

subsection \<open>JSON text\<close>

text \<open>
  \<open>std_dumps\<close> writes a value the way \<open>json.dumps\<close> does by default: \<open>", "\<close> between
  items, \<open>": "\<close> after a key, everything outside printable ASCII escaped. \<open>std_loads\<close>
  reads JSON text without floating-point numbers and without escaped characters above
  code 255, which it rejects; a repeated key keeps its first place and its last value, as
  in a dict.
\<close>

definition hex_digit :: "nat \<Rightarrow> char" where
  "hex_digit n = ''0123456789abcdef'' ! (n mod 16)"

definition escape_char :: "char \<Rightarrow> string" where
  "escape_char c =
     (if c = CHR 0x22 then [CHR 0x5C, CHR 0x22]
      else if c = CHR 0x5C then [CHR 0x5C, CHR 0x5C]
      else if c = CHR 0x0A then [CHR 0x5C, CHR ''n'']
      else if c = CHR 0x0D then [CHR 0x5C, CHR ''r'']
      else if c = CHR 0x09 then [CHR 0x5C, CHR ''t'']
      else if c = CHR 0x08 then [CHR 0x5C, CHR ''b'']
      else if c = CHR 0x0C then [CHR 0x5C, CHR ''f'']
      else if (of_char c :: nat) < 32 \<or> 126 < (of_char c :: nat)
        then [CHR 0x5C, CHR ''u'', CHR ''0'', CHR ''0'',
              hex_digit ((of_char c :: nat) div 16), hex_digit (of_char c :: nat)]
      else [c])"

definition dumps_str :: "string \<Rightarrow> string" where
  "dumps_str s = CHR 0x22 # concat (map escape_char s) @ [CHR 0x22]"

fun std_dumps :: "json \<Rightarrow> string"
  and dumps_items :: "json list \<Rightarrow> string"
  and dumps_members :: "(string \<times> json) list \<Rightarrow> string" where
  "std_dumps JNull = ''null''"
| "std_dumps (JBool b) = (if b then ''true'' else ''false'')"
| "std_dumps (JInt i) = py_str_int i"
| "std_dumps (JStr s) = dumps_str s"
| "std_dumps (JArr xs) = ''['' @ dumps_items xs @ '']''"
| "std_dumps (JObj kvs) = ''{'' @ dumps_members kvs @ ''}''"
| "dumps_items [] = []"
| "dumps_items [x] = std_dumps x"
| "dumps_items (x # y # r) = std_dumps x @ '', '' @ dumps_items (y # r)"
| "dumps_members [] = []"
| "dumps_members [(k, v)] = dumps_str k @ '': '' @ std_dumps v"
| "dumps_members ((k, v) # m # r) = dumps_str k @ '': '' @ std_dumps v @ '', '' @ dumps_members (m # r)"

fun dict_set :: "string \<Rightarrow> json \<Rightarrow> (string \<times> json) list \<Rightarrow> (string \<times> json) list" where
  "dict_set k v [] = [(k, v)]"
| "dict_set k v ((k', v') # r) = (if k = k' then (k, v) # r else (k', v') # dict_set k v r)"

definition is_ws :: "char \<Rightarrow> bool" where
  "is_ws c = (c = CHR '' '' \<or> c = CHR 0x09 \<or> c = CHR 0x0A \<or> c = CHR 0x0D)"

fun skip_ws :: "string \<Rightarrow> string" where
  "skip_ws [] = []"
| "skip_ws (c # cs) = (if is_ws c then skip_ws cs else c # cs)"

definition hex_val :: "char \<Rightarrow> nat option" where
  "hex_val c =
     (let n = (of_char c :: nat)
      in if 48 \<le> n \<and> n \<le> 57 then Some (n - 48)
         else if 97 \<le> n \<and> n \<le> 102 then Some (n - 87)
         else if 65 \<le> n \<and> n \<le> 70 then Some (n - 55)
         else None)"

definition unescape :: "char \<Rightarrow> char option" where
  "unescape e =
     (if e = CHR 0x22 \<or> e = CHR 0x5C \<or> e = CHR ''/'' then Some e
      else if e = CHR ''n'' then Some (CHR 0x0A)
      else if e = CHR ''r'' then Some (CHR 0x0D)
      else if e = CHR ''t'' then Some (CHR 0x09)
      else if e = CHR ''b'' then Some (CHR 0x08)
      else if e = CHR ''f'' then Some (CHR 0x0C)
      else None)"

definition hex4 :: "char \<Rightarrow> char \<Rightarrow> char \<Rightarrow> char \<Rightarrow> nat option" where
  "hex4 a b c d =
     (case (hex_val a, hex_val b, hex_val c, hex_val d) of
        (Some x, Some y, Some z, Some u) \<Rightarrow> Some (((x * 16 + y) * 16 + z) * 16 + u)
      | _ \<Rightarrow> None)"

definition cons_fst :: "'a \<Rightarrow> ('a list \<times> 'b) option \<Rightarrow> ('a list \<times> 'b) option" where
  "cons_fst x r = (case r of None \<Rightarrow> None | Some (xs, rest) \<Rightarrow> Some (x # xs, rest))"

text \<open>The characters of a string, after its opening quote.\<close>

fun loads_chars :: "string \<Rightarrow> (string \<times> string) option" where
  "loads_chars [] = None"
| "loads_chars (c # cs) =
     (if c = CHR 0x22 then Some ([], cs)
      else if c = CHR 0x5C then
        (case cs of
           [] \<Rightarrow> None
         | e # r \<Rightarrow>
             if e = CHR ''u'' then
               (case r of
                  a # b # c2 # d # r' \<Rightarrow>
                    (case hex4 a b c2 d of
                       None \<Rightarrow> None
                     | Some n \<Rightarrow> if n < 256 then cons_fst (char_of n) (loads_chars r') else None)
                | _ \<Rightarrow> None)
             else
               (case unescape e of
                  None \<Rightarrow> None
                | Some x \<Rightarrow> cons_fst x (loads_chars r)))
      else if (of_char c :: nat) < 32 then None
      else cons_fst c (loads_chars cs))"

definition loads_int :: "string \<Rightarrow> (int \<times> string) option" where
  "loads_int cs =
     (let neg = (case cs of c # r \<Rightarrow> c = CHR ''-'' | [] \<Rightarrow> False);
          body = (if neg then tl cs else cs);
          ds = takeWhile is_digit body;
          rest = dropWhile is_digit body;
          n = int (foldl (\<lambda>a c. 10 * a + digit_val c) 0 ds)
      in if ds = [] then None
         else if 1 < length ds \<and> hd ds = CHR ''0'' then None
         else if (case rest of c # r \<Rightarrow> c = CHR ''.'' \<or> c = CHR ''e'' \<or> c = CHR ''E'' | [] \<Rightarrow> False)
           then None
         else Some (if neg then - n else n, rest))"

text \<open>The first argument bounds the number of values and items still to be read; the
  length of the text is enough.\<close>

fun loads_value :: "nat \<Rightarrow> string \<Rightarrow> (json \<times> string) option"
  and loads_items :: "nat \<Rightarrow> string \<Rightarrow> (json list \<times> string) option"
  and loads_members :: "nat \<Rightarrow> string \<Rightarrow> ((string \<times> json) list \<times> string) option" where
  "loads_value 0 cs = None"
| "loads_value (Suc n) cs =
     (case skip_ws cs of
        [] \<Rightarrow> None
      | c # r \<Rightarrow>
          if c = CHR ''['' then
            (case skip_ws r of
               [] \<Rightarrow> None
             | c' # r' \<Rightarrow>
                 if c' = CHR '']'' then Some (JArr [], r')
                 else (case loads_items n r of
                         None \<Rightarrow> None
                       | Some (xs, rest) \<Rightarrow> Some (JArr xs, rest)))
          else if c = CHR ''{'' then
            (case skip_ws r of
               [] \<Rightarrow> None
             | c' # r' \<Rightarrow>
                 if c' = CHR ''}'' then Some (JObj [], r')
                 else (case loads_members n r of
                         None \<Rightarrow> None
                       | Some (kvs, rest) \<Rightarrow>
                           Some (JObj (foldl (\<lambda>d (k, v). dict_set k v d) [] kvs), rest)))
          else if c = CHR 0x22 then
            (case loads_chars r of
               None \<Rightarrow> None
             | Some (s, rest) \<Rightarrow> Some (JStr s, rest))
          else if prefix ''null'' (c # r) then Some (JNull, drop 4 (c # r))
          else if prefix ''true'' (c # r) then Some (JBool True, drop 4 (c # r))
          else if prefix ''false'' (c # r) then Some (JBool False, drop 5 (c # r))
          else (case loads_int (c # r) of
                  None \<Rightarrow> None
                | Some (i, rest) \<Rightarrow> Some (JInt i, rest)))"
| "loads_items 0 cs = None"
| "loads_items (Suc n) cs =
     (case loads_value n cs of
        None \<Rightarrow> None
      | Some (v, r) \<Rightarrow>
          (case skip_ws r of
             [] \<Rightarrow> None
           | c # r' \<Rightarrow>
               if c = CHR '']'' then Some ([v], r')
               else if c = CHR '','' then cons_fst v (loads_items n r')
               else None))"
| "loads_members 0 cs = None"
| "loads_members (Suc n) cs =
     (case skip_ws cs of
        [] \<Rightarrow> None
      | q # r0 \<Rightarrow>
          if q = CHR 0x22 then
            (case loads_chars r0 of
               None \<Rightarrow> None
             | Some (k, r1) \<Rightarrow>
                 (case skip_ws r1 of
                    [] \<Rightarrow> None
                  | c # r2 \<Rightarrow>
                      if c = CHR '':'' then
                        (case loads_value n r2 of
                           None \<Rightarrow> None
                         | Some (v, r3) \<Rightarrow>
                             (case skip_ws r3 of
                                [] \<Rightarrow> None
                              | c' # r4 \<Rightarrow>
                                  if c' = CHR ''}'' then Some ([(k, v)], r4)
                                  else if c' = CHR '','' then cons_fst (k, v) (loads_members n r4)
                                  else None))
                      else None))
          else None)"

definition std_loads :: "string \<Rightarrow> py_error + json" where
  "std_loads s =
     (case loads_value (Suc (length s)) s of
        None \<Rightarrow> Inl JSONDecodeError
      | Some (v, rest) \<Rightarrow> if skip_ws rest = [] then Inr v else Inl JSONDecodeError)"

subsection \<open>A small site\<close>

text \<open>
  A page is named by a word, and the parser's answers are given for each page:
  \<^item> the search for id 012345 lists two links, the second to the item's page, which
    shows a name and an image;
  \<^item> the search for id 678 finds nothing: the page has no link, no name and no image;
  \<^item> the search for id 777 shows an image element without a \<open>src\<close> attribute;
  \<^item> the search for id 888 shows an image and no name;
  \<^item> the search for id 12 lists one link, to the page of another item, 1234;
  \<^item> the search for id 55 lists a link without a target;
  \<^item> the catalog page holds the list of two candidates in a script; the page
    \<open>catalog-plain\<close> has no such script, and the list of \<open>catalog-broken\<close> is no JSON.
\<close>

definition ITEM_URL :: string where
  "ITEM_URL = ''https://www.flightclub.com/air-jordan-1-low-012345''"

definition OTHER_URL :: string where
  "OTHER_URL = ''https://www.flightclub.com/air-jordan-1234''"

definition site_page_of :: "string \<Rightarrow> py_error + string" where
  "site_page_of url =
     (if url = BASE_SEARCH_SITE @ ''012345'' then Inr ''search-012345''
      else if url = ITEM_URL then Inr ''item-012345''
      else if url = BASE_SEARCH_SITE @ ''678'' then Inr ''search-678''
      else if url = BASE_SEARCH_SITE @ ''777'' then Inr ''search-777''
      else if url = BASE_SEARCH_SITE @ ''12'' then Inr ''search-12''
      else if url = OTHER_URL then Inr ''item-1234''
      else if url = BASE_SEARCH_SITE @ ''55'' then Inr ''search-55''
      else if url = BASE_SEARCH_SITE @ ''888'' then Inr ''search-888''
      else Inl WebDriverError)"

definition site_find_all :: "string \<Rightarrow> string \<Rightarrow> element list" where
  "site_find_all html tag =
     (if tag = ''a'' \<and> html = ''search-012345'' then
        [\<lparr>el_text = ''Home'', el_attrs = [(''href'', ''https://www.flightclub.com/'')]\<rparr>,
         \<lparr>el_text = ''Air Jordan 1 Low'', el_attrs = [(''href'', ITEM_URL)]\<rparr>]
      else if tag = ''a'' \<and> html = ''search-12'' then
        [\<lparr>el_text = ''Air Jordan'', el_attrs = [(''href'', OTHER_URL)]\<rparr>]
      else if tag = ''a'' \<and> html = ''search-55'' then
        [\<lparr>el_text = ''Top'', el_attrs = [(''name'', ''top'')]\<rparr>]
      else if tag = ''script'' \<and> html = ''catalog'' then
        [\<lparr>el_text = ''var page = 1;'', el_attrs = []\<rparr>,
         \<lparr>el_text = ''dataLayer.push({'' @ IMPRESSIONS_MARKER @
            dumps_items [JObj [(''name'', JStr ''Air Jordan 1 Retro High''), (''id'', JStr ''678'')],
                         JObj [(''name'', JStr ''Air Jordan 1 Low''), (''id'', JStr ''012345'')]]
            @ '']});'', el_attrs = []\<rparr>]
      else if tag = ''script'' \<and> html = ''catalog-plain'' then
        [\<lparr>el_text = ''var page = 1;'', el_attrs = []\<rparr>]
      else if tag = ''script'' \<and> html = ''catalog-broken'' then
        [\<lparr>el_text = ''dataLayer.push({'' @ IMPRESSIONS_MARKER @ ''oops]});'', el_attrs = []\<rparr>]
      else [])"

definition site_select :: "string \<Rightarrow> string \<Rightarrow> element list" where
  "site_select html sel =
     (if html = ''item-012345'' \<and> sel = NAME_SELECTOR then
        [\<lparr>el_text = ''Air Jordan 1 Low'', el_attrs = []\<rparr>]
      else if html = ''item-012345'' \<and> sel = IMAGE_SELECTOR then
        [\<lparr>el_text = [], el_attrs = [(''class'', ''product-img''), (''src'', ''https://img.example/012345.jpg'')]\<rparr>]
      else if html = ''item-1234'' \<and> sel = NAME_SELECTOR then
        [\<lparr>el_text = ''Air Jordan 1234'', el_attrs = []\<rparr>]
      else if html = ''search-777'' \<and> sel = IMAGE_SELECTOR then
        [\<lparr>el_text = [], el_attrs = [(''class'', ''product-img'')]\<rparr>]
      else if html = ''search-888'' \<and> sel = IMAGE_SELECTOR then
        [\<lparr>el_text = [], el_attrs = [(''class'', ''product-img''), (''src'', ''https://img.example/888.jpg'')]\<rparr>]
      else [])"

text \<open>
  The tags typed at the prompt are read here as a JSON list, with double-quoted strings;
  \<open>ast.literal_eval\<close> accepts more, such as single-quoted strings.
\<close>

definition site_literal_eval :: "string \<Rightarrow> py_error + json" where
  "site_literal_eval s = (case std_loads s of Inl e \<Rightarrow> Inl ValueError | Inr v \<Rightarrow> Inr v)"

definition site_env :: env where
  "site_env =
     \<lparr>re_compile = literal_re_compile,
      page_of = site_page_of,
      soup_select = site_select,
      soup_find_all = site_find_all,
      json_dumps = std_dumps,
      json_loads = std_loads,
      literal_eval = site_literal_eval,
      can_write = (\<lambda>path. path \<noteq> [])\<rparr>"

definition empty_world :: world where
  "empty_world = \<lparr>out = [], sessions = [], pages = (\<lambda>b. []), files = Map.empty, stdin = []\<rparr>"

section \<open>The exclusion filter\<close>

lemma scan_tags_Some:
  "scan_tags E (JStr name) tags = Inr (Some (s, t)) \<longleftrightarrow>
     s = name \<and> find (tag_matches E name) tags = Some t \<and>
     list_all (tag_valid E) (takeWhile (\<lambda>u. \<not> tag_matches E name u) tags)"
  by (induction tags) (auto simp: tag_matches_def tag_valid_def split: sum.splits)

lemma scan_tags_name_string:
  "scan_tags E v tags = Inr (Some (s, t)) \<Longrightarrow> v = JStr s"
  by (induction tags) (auto split: sum.splits json.splits if_splits)

lemma scan_tags_raises:
  "scan_tags E (JStr name) tags = Inl e \<longleftrightarrow>
     (\<exists>t. find (\<lambda>u. tag_matches E name u \<or> \<not> tag_valid E u) tags = Some t \<and> re_compile E t = Inl e)"
  by (induction tags) (auto simp: tag_matches_def tag_valid_def split: sum.splits)

lemma create_shoe_pair_raises:
  assumes "py_getitem idobj ''name'' = Inr (JStr name)"
    and "find (\<lambda>u. tag_matches E name u \<or> \<not> tag_valid E u) tags = Some t" and "re_compile E t = Inl e"
  shows "create_shoe_pair E idobj tags w = (Inl e, w)"
proof -
  from assms(2,3) have "scan_tags E (JStr name) tags = Inl e" by (auto simp: scan_tags_raises)
  with assms(1) show ?thesis by (simp add: create_shoe_pair_def)
qed

text \<open>
  C1, as the code has it. For a candidate whose name is a string, \<open>create_shoe_pair\<close>
  returns \<open>None\<close> exactly when some tag matches the name and every tag before the first
  matching one is a well-formed pattern; the line it prints then names the first matching
  tag in list order. With an empty tag list it never returns \<open>None\<close>. When the first tag
  that matches or is ill-formed is an ill-formed one, the error of compiling it is raised.
\<close>

theorem create_shoe_pair_excludes:
  assumes "py_getitem idobj ''name'' = Inr (JStr name)"
  shows "(create_shoe_pair E idobj tags w = (Inr None, w') \<longleftrightarrow>
           (\<exists>t. find (tag_matches E name) tags = Some t \<and>
                list_all (tag_valid E) (takeWhile (\<lambda>u. \<not> tag_matches E name u) tags) \<and>
                w' = print_info (InfoExcluding name t) w)) \<and>
         fst (create_shoe_pair E idobj [] w) \<noteq> Inr None \<and>
         (find (\<lambda>u. tag_matches E name u \<or> \<not> tag_valid E u) tags = Some bad \<and> re_compile E bad = Inl e \<longrightarrow>
            create_shoe_pair E idobj tags w = (Inl e, w))"
proof -
  have a: "fst (create_shoe_pair E idobj [] w) \<noteq> Inr None"
    using assms by (auto simp: create_shoe_pair_def split: sum.splits prod.splits)
  have c: "find (\<lambda>u. tag_matches E name u \<or> \<not> tag_valid E u) tags = Some bad \<and> re_compile E bad = Inl e \<longrightarrow>
            create_shoe_pair E idobj tags w = (Inl e, w)"
    using create_shoe_pair_raises [OF assms] by blast
  have b: "create_shoe_pair E idobj tags w = (Inr None, w') \<longleftrightarrow>
           (\<exists>t. scan_tags E (JStr name) tags = Inr (Some (name, t)) \<and>
                w' = print_info (InfoExcluding name t) w)"
    using assms scan_tags_name_string[of E "JStr name" tags]
    by (auto simp: create_shoe_pair_def split: sum.splits prod.splits option.splits)
  show ?thesis using a b c by (simp add: scan_tags_Some)
qed

text \<open>The tags low, retro, jordan on "Air Jordan 1 Retro High": retro is the first match.\<close>

theorem create_shoe_pair_excludes_witness:
  "py_getitem (JObj [(''name'', JStr ''Air Jordan 1 Retro High''), (''id'', JStr ''678'')]) ''name''
     = Inr (JStr ''Air Jordan 1 Retro High'') \<and>
   find (tag_matches site_env ''Air Jordan 1 Retro High'') [''low'', ''retro'', ''jordan''] = Some ''retro'' \<and>
   create_shoe_pair site_env (JObj [(''name'', JStr ''Air Jordan 1 Retro High''), (''id'', JStr ''678'')])
       [''low'', ''retro'', ''jordan''] empty_world
     = (Inr None, print_info (InfoExcluding ''Air Jordan 1 Retro High'' ''retro'') empty_world) \<and>
   fst (create_shoe_pair site_env (JObj [(''name'', JStr ''Air Jordan 1 Retro High''), (''id'', JStr ''678'')])
       [] empty_world) \<noteq> Inr None"
proof -
  have n: "py_getitem (JObj [(''name'', JStr ''Air Jordan 1 Retro High''), (''id'', JStr ''678'')]) ''name''
     = Inr (JStr ''Air Jordan 1 Retro High'')"
    by simp
  have f: "find (tag_matches site_env ''Air Jordan 1 Retro High'') [''low'', ''retro'', ''jordan'']
     = Some ''retro''"
    by code_simp
  have v: "list_all (tag_valid site_env)
     (takeWhile (\<lambda>u. \<not> tag_matches site_env ''Air Jordan 1 Retro High'' u) [''low'', ''retro'', ''jordan''])"
    by code_simp
  show ?thesis
    using create_shoe_pair_excludes [OF n, of site_env "[''low'', ''retro'', ''jordan'']" empty_world
        "print_info (InfoExcluding ''Air Jordan 1 Retro High'' ''retro'') empty_world"] n f v
    by blast
qed

text \<open>
  C1 as stated fails: with the tags \<open>(\<close> and \<open>retro\<close>, the second tag matches the name, but
  the first is no pattern and \<open>create_shoe_pair\<close> raises \<open>re.error\<close> instead of returning
  \<open>None\<close>.
\<close>

theorem create_shoe_pair_excludes_counterexample:
  "tag_matches site_env ''Air Jordan 1 Retro High'' ''retro'' \<and>
   fst (create_shoe_pair site_env (JObj [(''name'', JStr ''Air Jordan 1 Retro High''), (''id'', JStr ''678'')])
       [''('', ''retro''] empty_world) = Inl ReError"
  by code_simp

text \<open>
  C10. The filters of \<open>generator.py\<close> and \<open>gys-generator.py\<close> take the same decision: one
  returns \<open>None\<close> exactly when the other does, and then both have printed the same line,
  with the same tag.
\<close>

theorem create_shoe_pair_same_decision:
  "((create_shoe_pair E idobj tags w = (Inr None, w')) =
      (gys_create_shoe_pair E idobj tags w = (Inr None, w'))) \<and>
   ((fst (create_shoe_pair E idobj tags w) = Inr None) =
      (fst (gys_create_shoe_pair E idobj tags w) = Inr None))"
  by (auto simp: create_shoe_pair_def gys_create_shoe_pair_def
           split: sum.splits prod.splits option.splits)

section \<open>The descriptor file\<close>

lemma first_missing_None:
  "first_missing loaded = None \<longleftrightarrow> list_all (\<lambda>k. py_in k loaded) REQUIRED_FIELDS"
  by (auto simp: first_missing_def find_None_iff list_all_iff)

text \<open>
  C4. Let the file hold a text that \<open>json.loads\<close> decodes to \<open>loaded\<close>. If \<open>loaded\<close> is not a
  dict, \<open>read_execution_file\<close> returns the malformed-object message and no descriptor. If it
  is a dict that lacks a required field, the message names the first missing field in the
  order site, dir, exclude_list, start, and there is no descriptor. Otherwise, when all
  four fields are present, the message is empty and the dict is returned as it was loaded.
\<close>

theorem read_execution_file_validates:
  assumes "files w path = Some text" and "json_loads E text = Inr loaded"
  shows "fst (read_execution_file E path w) =
           Inr (if \<not> is_dict loaded then (''Loaded JSON should be a dict ( {} )!'', None)
                else case first_missing loaded of
                       Some k \<Rightarrow> (''Missing '' @ k @ '' value'', None)
                     | None \<Rightarrow> ([], Some loaded)) \<and>
         (first_missing loaded = None) = list_all (\<lambda>k. py_in k loaded) REQUIRED_FIELDS"
  using assms
  by (simp add: read_execution_file_def first_missing_def REQUIRED_FIELDS_def Let_def)

text \<open>
  A file holding a list, one lacking \<open>dir\<close> and \<open>start\<close>, and one with all four fields (in
  another order, with an extra key and values of other types).
\<close>

theorem read_execution_file_validates_witness:
  "fst (read_execution_file site_env ''exec.json''
          (empty_world\<lparr>files := [''exec.json'' \<mapsto> ''[1, 2]'']\<rparr>))
     = Inr (''Loaded JSON should be a dict ( {} )!'', None) \<and>
   fst (read_execution_file site_env ''exec.json''
          (empty_world\<lparr>files := [''exec.json'' \<mapsto>
             std_dumps (JObj [(''site'', JStr ''s''), (''exclude_list'', JArr []), (''extra'', JNull)])]\<rparr>))
     = Inr (''Missing dir value'', None) \<and>
   fst (read_execution_file site_env ''exec.json''
          (empty_world\<lparr>files := [''exec.json'' \<mapsto>
             std_dumps (JObj [(''start'', JStr ''one''), (''site'', JInt 3), (''dir'', JNull),
                              (''extra'', JBool True), (''exclude_list'', JStr ''x'')])]\<rparr>))
     = Inr ([], Some (JObj [(''start'', JStr ''one''), (''site'', JInt 3), (''dir'', JNull),
                              (''extra'', JBool True), (''exclude_list'', JStr ''x'')]))"
proof -
  let ?t1 = "''[1, 2]''"
  let ?d2 = "JObj [(''site'', JStr ''s''), (''exclude_list'', JArr []), (''extra'', JNull)]"
  let ?d3 = "JObj [(''start'', JStr ''one''), (''site'', JInt 3), (''dir'', JNull),
                              (''extra'', JBool True), (''exclude_list'', JStr ''x'')]"
  have l1: "json_loads site_env ?t1 = Inr (JArr [JInt 1, JInt 2])" by code_simp
  have l2: "json_loads site_env (std_dumps ?d2) = Inr ?d2" by code_simp
  have l3: "json_loads site_env (std_dumps ?d3) = Inr ?d3" by code_simp
  have m2: "first_missing ?d2 = Some ''dir''" by code_simp
  have m3: "first_missing ?d3 = None" by code_simp
  have f: "\<And>t. files (empty_world\<lparr>files := [''exec.json'' \<mapsto> t]\<rparr>) ''exec.json'' = Some t"
    by simp
  show ?thesis
    using read_execution_file_validates [OF f l1] read_execution_file_validates [OF f l2]
      read_execution_file_validates [OF f l3] m2 m3
    by simp
qed

text \<open>
  C5. Where the file can be written and the JSON library reads back what it wrote for the
  descriptor, \<open>create_execution_file\<close> followed by \<open>read_execution_file\<close> on the same path
  gives the empty error string and a dict whose \<open>site\<close>, \<open>dir\<close>, \<open>exclude_list\<close> and
  \<open>start\<close> are the values written.
\<close>

theorem execution_file_round_trip:
  assumes "can_write E name"
    and "json_loads E (json_dumps E (descriptor site dir exclude_list start))
           = Inr (descriptor site dir exclude_list start)"
  shows "fst (create_execution_file E name site dir exclude_list start w) = Inr () \<and>
         fst (read_execution_file E name (snd (create_execution_file E name site dir exclude_list start w)))
           = Inr ([], Some (descriptor site dir exclude_list start)) \<and>
         py_getitem (descriptor site dir exclude_list start) ''site'' = Inr (JStr site) \<and>
         py_getitem (descriptor site dir exclude_list start) ''dir'' = Inr (JStr dir) \<and>
         py_getitem (descriptor site dir exclude_list start) ''exclude_list'' = Inr exclude_list \<and>
         py_getitem (descriptor site dir exclude_list start) ''start'' = Inr (JInt start)"
  using assms
  by (simp add: create_execution_file_def read_execution_file_def descriptor_def Let_def)

theorem execution_file_round_trip_witness:
  "can_write site_env ''exec.json'' \<and>
   fst (create_execution_file site_env ''exec.json'' ''https://www.flightclub.com/air-jordans/air-jordan-1''
          ''./out/'' (JArr [JStr ''retro'', JStr ''(GS)'']) 7 empty_world) = Inr () \<and>
   fst (read_execution_file site_env ''exec.json''
         (snd (create_execution_file site_env ''exec.json'' ''https://www.flightclub.com/air-jordans/air-jordan-1''
          ''./out/'' (JArr [JStr ''retro'', JStr ''(GS)'']) 7 empty_world)))
     = Inr ([], Some (descriptor ''https://www.flightclub.com/air-jordans/air-jordan-1''
          ''./out/'' (JArr [JStr ''retro'', JStr ''(GS)'']) 7))"
proof -
  have c: "can_write site_env ''exec.json''" by code_simp
  have l: "json_loads site_env (json_dumps site_env
      (descriptor ''https://www.flightclub.com/air-jordans/air-jordan-1''
          ''./out/'' (JArr [JStr ''retro'', JStr ''(GS)'']) 7))
    = Inr (descriptor ''https://www.flightclub.com/air-jordans/air-jordan-1''
          ''./out/'' (JArr [JStr ''retro'', JStr ''(GS)'']) 7)"
    by code_simp
  show ?thesis using execution_file_round_trip [OF c l, of empty_world] c by simp
qed

section \<open>Browser sessions of an item\<close>

lemma fresh_session_new: "fresh_session ss \<notin> set ss"
proof (cases "ss = []")
  case True
  then show ?thesis by simp
next
  case False
  have "Suc (Max (set ss)) \<notin> set ss"
    using Max.coboundedI Suc_n_not_le_n by blast
  then show ?thesis using False by (simp add: fresh_session_def)
qed

lemma Browser_sessions:
  "Browser w = (b, w1) \<Longrightarrow> sessions w1 = sessions w @ [b] \<and> b \<notin> set (sessions w)"
  using fresh_session_new [of "sessions w"] by (auto simp: Browser_def Let_def)

lemma visit_sessions: "visit E b url w = (r, w1) \<Longrightarrow> sessions w1 = sessions w"
  by (auto simp: visit_def split: sum.splits)

lemma follow_link_sessions:
  "follow_link E ident b anchors w = (Inr b', w') \<Longrightarrow> sessions w = S @ [b] \<Longrightarrow> b \<notin> set S \<Longrightarrow>
     sessions w' = S @ [b'] \<and> b' \<notin> set S"
proof (induction anchors)
  case Nil
  then show ?case by simp
next
  case (Cons aelem rest)
  show ?case
  proof (cases "el_getitem aelem ''href''")
    case (Inl e)
    with Cons.prems show ?thesis by simp
  next
    case (Inr href)
    show ?thesis
    proof (cases "sublist (''-'' @ ident) href")
      case False
      with Inr Cons show ?thesis by simp
    next
      case True
      obtain nb w1 where B: "Browser w = (nb, w1)" by (cases "Browser w")
      obtain r w2 where V: "visit E nb href w1 = (r, w2)" by (cases "visit E nb href w1")
      from Cons.prems(1) Inr True B V have r: "b' = nb" "w' = quit b w2"
        by (auto split: sum.splits)
      from Browser_sessions [OF B] visit_sessions [OF V] Cons.prems(2)
      have s: "sessions w2 = S @ [b, nb]" "nb \<notin> set (S @ [b])" by auto
      with Cons.prems(3) r show ?thesis by (auto simp: quit_def)
    qed
  qed
qed

lemma ShoePair_search_sessions:
  assumes "ShoePair_search E ident w = (Inr b, w1)"
  shows "sessions w1 = sessions w @ [b] \<and> b \<notin> set (sessions w)"
proof -
  obtain br w0 where B: "Browser (print_info (InfoSearching ident) w) = (br, w0)"
    by (cases "Browser (print_info (InfoSearching ident) w)")
  have s0: "sessions (print_info (InfoSearching ident) w) = sessions w"
    by (simp add: print_info_def)
  from Browser_sessions [OF B] s0 have s1: "sessions w0 = sessions w @ [br]" "br \<notin> set (sessions w)"
    by auto
  from assms B obtain s where id: "ident = JStr s"
    by (cases ident) (auto simp: ShoePair_search_def Let_def)
  obtain r w2 where V: "visit E br (BASE_SEARCH_SITE @ s) w0 = (r, w2)"
    by (cases "visit E br (BASE_SEARCH_SITE @ s) w0")
  from assms B id V have F: "follow_link E s br (soup_find_all E (pages w2 br) ''a'') w2 = (Inr b, w1)"
    by (auto simp: ShoePair_search_def Let_def split: sum.splits)
  from visit_sessions [OF V] s1 have "sessions w2 = sessions w @ [br]" by simp
  from follow_link_sessions [OF F this s1(2)] show ?thesis .
qed

lemma follow_link_raises:
  "follow_link E ident b anchors w = (Inl e, w') \<Longrightarrow> prefix (sessions w) (sessions w')"
proof (induction anchors)
  case Nil
  then show ?case by simp
next
  case (Cons aelem rest)
  show ?case
  proof (cases "el_getitem aelem ''href''")
    case (Inl x)
    with Cons.prems show ?thesis by simp
  next
    case (Inr href)
    show ?thesis
    proof (cases "sublist (''-'' @ ident) href")
      case False
      with Inr Cons show ?thesis by simp
    next
      case True
      with Inr Cons.prems show ?thesis
        by (auto simp: Browser_def visit_def Let_def split: sum.splits prod.splits)
    qed
  qed
qed

lemma ShoePair_search_raises:
  assumes "ShoePair_search E ident w = (Inl e, w1)"
  shows "strict_prefix (sessions w) (sessions w1)"
proof -
  define w0 where "w0 = print_info (InfoSearching ident) w"
  define br where "br = fresh_session (sessions w0)"
  define wb where "wb = w0\<lparr>sessions := sessions w0 @ [br], pages := (pages w0)(br := [])\<rparr>"
  have s0: "sessions w0 = sessions w" by (simp add: w0_def print_info_def)
  have sb: "sessions wb = sessions w @ [br]" by (simp add: wb_def s0)
  show ?thesis
  proof (cases ident)
    case (JStr s)
    show ?thesis
    proof (cases "page_of E (BASE_SEARCH_SITE @ s)")
      case (Inl x)
      with JStr assms have "w1 = wb"
        by (simp add: ShoePair_search_def Browser_def visit_def Let_def w0_def br_def wb_def)
      with sb show ?thesis by (simp add: strict_prefix_def)
    next
      case (Inr h)
      define w2 where "w2 = wb\<lparr>pages := (pages wb)(br := h)\<rparr>"
      from Inr JStr assms have "follow_link E s br (soup_find_all E h ''a'') w2 = (Inl e, w1)"
        by (simp add: ShoePair_search_def Browser_def visit_def Let_def w0_def br_def wb_def w2_def)
      from follow_link_raises [OF this] have "prefix (sessions w @ [br]) (sessions w1)"
        by (simp add: w2_def sb)
      then show ?thesis by (auto simp: strict_prefix_def prefix_def)
    qed
  qed (use assms sb in \<open>auto simp: ShoePair_search_def Browser_def Let_def w0_def br_def wb_def strict_prefix_def\<close>)
qed

lemma ShoePair_init_raises:
  assumes "ShoePair_init E ident w = (Inl e, w')"
  shows "strict_prefix (sessions w) (sessions w')"
proof -
  obtain r w1 where S: "ShoePair_search E ident w = (r, w1)" by (cases "ShoePair_search E ident w")
  show ?thesis
  proof (cases r)
    case (Inl x)
    with S assms have "w' = w1" "r = Inl e" by (auto simp: ShoePair_init_def)
    with S ShoePair_search_raises show ?thesis by blast
  next
    case (Inr b)
    with S assms have "w' = w1" by (auto simp: ShoePair_init_def Let_def split: sum.splits)
    moreover from S Inr ShoePair_search_sessions have "sessions w1 = sessions w @ [b]" by blast
    ultimately show ?thesis by (simp add: strict_prefix_def)
  qed
qed

text \<open>
  C7, as the code has it. When \<open>ShoePair.__init__\<close> returns, the sessions that are open are
  those that were open before: the browser it used has been quit, and so has the search
  browser when \<open>_search\<close> opened a second one (on return from \<open>_search\<close> exactly one new
  session is open, the returned one). When it raises, the sessions open before are still
  open and at least one more is.
\<close>

theorem ShoePair_init_releases:
  "(ShoePair_init E ident w = (Inr sp, w') \<longrightarrow> sessions w' = sessions w) \<and>
   (ShoePair_search E ident w = (Inr b, w1) \<longrightarrow> sessions w1 = sessions w @ [b] \<and> b \<notin> set (sessions w)) \<and>
   (ShoePair_init E ident w = (Inl e, w2) \<longrightarrow> strict_prefix (sessions w) (sessions w2))"
proof (intro conjI; rule impI)
  assume a: "ShoePair_init E ident w = (Inr sp, w')"
  obtain r w1 where S: "ShoePair_search E ident w = (r, w1)" by (cases "ShoePair_search E ident w")
  from a S obtain brow where r: "r = Inr brow" by (cases r) (auto simp: ShoePair_init_def)
  from a S r obtain m where "w' = quit brow (print_info m w1)"
    by (auto simp: ShoePair_init_def Let_def split: sum.splits)
  moreover from ShoePair_search_sessions S r have "sessions w1 = sessions w @ [brow]" "brow \<notin> set (sessions w)"
    by auto
  ultimately show "sessions w' = sessions w" by (simp add: quit_def print_info_def)
next
  assume "ShoePair_search E ident w = (Inr b, w1)"
  then show "sessions w1 = sessions w @ [b] \<and> b \<notin> set (sessions w)"
    by (rule ShoePair_search_sessions)
next
  assume "ShoePair_init E ident w = (Inl e, w2)"
  then show "strict_prefix (sessions w) (sessions w2)"
    by (rule ShoePair_init_raises)
qed

theorem ShoePair_init_releases_witness:
  "fst (ShoePair_init site_env (JStr ''012345'') empty_world)
     = Inr \<lparr>sp_excluded = False, sp_name = ''Air Jordan 1 Low'', sp_image = ''https://img.example/012345.jpg''\<rparr> \<and>
   sessions (snd (ShoePair_init site_env (JStr ''012345'') empty_world)) = sessions empty_world \<and>
   fst (ShoePair_search site_env (JStr ''012345'') empty_world) = Inr 1 \<and>
   sessions (snd (ShoePair_search site_env (JStr ''012345'') empty_world)) = sessions empty_world @ [1]"
proof -
  have a: "fst (ShoePair_init site_env (JStr ''012345'') empty_world)
     = Inr \<lparr>sp_excluded = False, sp_name = ''Air Jordan 1 Low'', sp_image = ''https://img.example/012345.jpg''\<rparr>"
    by code_simp
  have b: "fst (ShoePair_search site_env (JStr ''012345'') empty_world) = Inr 1"
    by code_simp
  from a have a': "ShoePair_init site_env (JStr ''012345'') empty_world
     = (Inr \<lparr>sp_excluded = False, sp_name = ''Air Jordan 1 Low'', sp_image = ''https://img.example/012345.jpg''\<rparr>,
        snd (ShoePair_init site_env (JStr ''012345'') empty_world))"
    by (metis prod.collapse)
  from b have b': "ShoePair_search site_env (JStr ''012345'') empty_world
     = (Inr 1, snd (ShoePair_search site_env (JStr ''012345'') empty_world))"
    by (metis prod.collapse)
  show ?thesis
    using ShoePair_init_releases [of site_env "JStr ''012345''" empty_world _
        "snd (ShoePair_init site_env (JStr ''012345'') empty_world)" 1
        "snd (ShoePair_search site_env (JStr ''012345'') empty_world)"] a a' b b'
    by simp
qed

text \<open>
  C7 as stated fails: when the image element has no \<open>src\<close> attribute, extraction raises
  \<open>KeyError\<close> and the session opened for the item stays open.
\<close>

theorem ShoePair_init_releases_counterexample:
  "fst (ShoePair_init site_env (JStr ''777'') empty_world) = Inl (KeyError ''src'') \<and>
   sessions empty_world = [] \<and>
   sessions (snd (ShoePair_init site_env (JStr ''777'') empty_world)) = [0]"
  by code_simp

section \<open>The link that the search follows\<close>

lemma follow_link_none:
  "find (link_matches ident) anchors = None \<Longrightarrow> list_all has_href anchors \<Longrightarrow>
     follow_link E ident b anchors w = (Inr b, w)"
  by (induction anchors) (auto simp: link_matches_def has_href_def split: sum.splits if_splits)

lemma follow_link_found:
  assumes "find (link_matches ident) anchors = Some aelem"
    and "list_all has_href (takeWhile (\<lambda>a. \<not> link_matches ident a) anchors)"
    and "el_getitem aelem ''href'' = Inr href"
  shows "case page_of E href of
           Inl e \<Rightarrow> fst (follow_link E ident b anchors w) = Inl e
         | Inr item \<Rightarrow> (\<exists>nb. fst (follow_link E ident b anchors w) = Inr nb \<and>
                            pages (snd (follow_link E ident b anchors w)) nb = item)"
  using assms
proof (induction anchors)
  case Nil
  then show ?case by simp
next
  case (Cons a rest)
  show ?case
  proof (cases "link_matches ident a")
    case True
    with Cons.prems have "a = aelem" by simp
    with True Cons.prems(3) show ?thesis
      by (auto simp: link_matches_def Browser_def visit_def quit_def Let_def split: sum.splits)
  next
    case False
    with Cons.prems have "has_href a" by simp
    with False Cons show ?thesis
      by (auto simp: link_matches_def has_href_def split: sum.splits)
  qed
qed

lemma find_Some_has_href:
  "find (link_matches ident) anchors = Some aelem \<Longrightarrow> \<exists>href. el_getitem aelem ''href'' = Inr href"
proof -
  assume "find (link_matches ident) anchors = Some aelem"
  then have "link_matches ident aelem" by (metis find_Some_iff)
  then show ?thesis by (cases "el_getitem aelem ''href''") (auto simp: link_matches_def)
qed

lemma ShoePair_search_page:
  assumes "page_of E (BASE_SEARCH_SITE @ ident) = Inr results"
    and "list_all has_href (takeWhile (\<lambda>a. \<not> link_matches ident a) (soup_find_all E results ''a''))"
  shows "case find (link_matches ident) (soup_find_all E results ''a'') of
           None \<Rightarrow>
             (\<exists>b. fst (ShoePair_search E (JStr ident) w) = Inr b \<and>
                  pages (snd (ShoePair_search E (JStr ident) w)) b = results)
         | Some aelem \<Rightarrow>
             (case el_getitem aelem ''href'' of
                Inl e \<Rightarrow> False
              | Inr href \<Rightarrow>
                  (case page_of E href of
                     Inl e \<Rightarrow> fst (ShoePair_search E (JStr ident) w) = Inl e
                   | Inr item \<Rightarrow>
                       (\<exists>b. fst (ShoePair_search E (JStr ident) w) = Inr b \<and>
                            pages (snd (ShoePair_search E (JStr ident) w)) b = item)))"
proof -
  define w0 where "w0 = print_info (InfoSearching (JStr ident)) w"
  define br where "br = fst (Browser w0)"
  define w1 where "w1 = snd (Browser w0)"
  define w2 where "w2 = w1\<lparr>pages := (pages w1)(br := results)\<rparr>"
  have S: "ShoePair_search E (JStr ident) w = follow_link E ident br (soup_find_all E results ''a'') w2"
    using assms(1) by (simp add: ShoePair_search_def Let_def visit_def w0_def br_def w1_def w2_def split: prod.splits)
  have p: "pages w2 br = results" by (simp add: w2_def)
  show ?thesis
  proof (cases "find (link_matches ident) (soup_find_all E results ''a'')")
    case None
    then have "takeWhile (\<lambda>a. \<not> link_matches ident a) (soup_find_all E results ''a'') = soup_find_all E results ''a''"
      by (auto simp: find_None_iff)
    with assms(2) follow_link_none [OF None, of E br w2] p None show ?thesis
      unfolding S by simp
  next
    case (Some aelem)
    from find_Some_has_href [OF Some] obtain href where h: "el_getitem aelem ''href'' = Inr href" ..
    from follow_link_found [OF Some assms(2) h, of E br w2] Some h show ?thesis
      unfolding S by simp
  qed
qed

text \<open>
  C8, as the code has it. Let the search page load, and let every link before the first
  matching one have a target. \<open>_search\<close> takes the first link, in document order, whose
  target contains \<open>"-" + id\<close> anywhere; the browser it returns shows that link's page, or
  the error of loading it is raised. When no link matches, the browser returned shows the
  search page.
\<close>

theorem ShoePair_search_follows_first_match:
  assumes "page_of E (BASE_SEARCH_SITE @ ident) = Inr results"
    and "list_all has_href (takeWhile (\<lambda>a. \<not> link_matches ident a) (soup_find_all E results ''a''))"
  shows "case find (link_matches ident) (soup_find_all E results ''a'') of
           None \<Rightarrow>
             (\<exists>b. fst (ShoePair_search E (JStr ident) w) = Inr b \<and>
                  pages (snd (ShoePair_search E (JStr ident) w)) b = results)
         | Some aelem \<Rightarrow>
             (case el_getitem aelem ''href'' of
                Inl e \<Rightarrow> False
              | Inr href \<Rightarrow>
                  (case page_of E href of
                     Inl e \<Rightarrow> fst (ShoePair_search E (JStr ident) w) = Inl e
                   | Inr item \<Rightarrow>
                       (\<exists>b. fst (ShoePair_search E (JStr ident) w) = Inr b \<and>
                            pages (snd (ShoePair_search E (JStr ident) w)) b = item)))"
  using assms by (rule ShoePair_search_page)

theorem ShoePair_search_follows_first_match_witness:
  "page_of site_env (BASE_SEARCH_SITE @ ''012345'') = Inr ''search-012345'' \<and>
   map (\<lambda>a. el_getitem a ''href'') (soup_find_all site_env ''search-012345'' ''a'')
     = [Inr ''https://www.flightclub.com/'', Inr ITEM_URL] \<and>
   page_of site_env ITEM_URL = Inr ''item-012345'' \<and>
   (\<exists>b. fst (ShoePair_search site_env (JStr ''012345'') empty_world) = Inr b \<and>
        pages (snd (ShoePair_search site_env (JStr ''012345'') empty_world)) b = ''item-012345'')"
proof -
  have a: "page_of site_env (BASE_SEARCH_SITE @ ''012345'') = Inr ''search-012345''" by code_simp
  have b: "list_all has_href (takeWhile (\<lambda>a. \<not> link_matches ''012345'' a)
             (soup_find_all site_env ''search-012345'' ''a''))" by code_simp
  have c: "find (link_matches ''012345'') (soup_find_all site_env ''search-012345'' ''a'')
             = Some \<lparr>el_text = ''Air Jordan 1 Low'', el_attrs = [(''href'', ITEM_URL)]\<rparr>" by code_simp
  have d: "el_getitem \<lparr>el_text = ''Air Jordan 1 Low'', el_attrs = [(''href'', ITEM_URL)]\<rparr> ''href'' = Inr ITEM_URL"
    by (simp add: el_getitem_def)
  have e: "page_of site_env ITEM_URL = Inr ''item-012345''" by code_simp
  have f: "map (\<lambda>a. el_getitem a ''href'') (soup_find_all site_env ''search-012345'' ''a'')
     = [Inr ''https://www.flightclub.com/'', Inr ITEM_URL]" by code_simp
  show ?thesis
    using ShoePair_search_follows_first_match [OF a b, of empty_world] a c d e f by simp
qed

text \<open>
  C8 as stated fails: for the id 12 the only link of the search page leads to item 1234.
  No path segment of its target ends with the id, yet the target contains \<open>-12\<close> and
  \<open>_search\<close> goes to that page rather than staying on the search page.
\<close>

theorem ShoePair_search_follows_first_match_counterexample:
  "map (\<lambda>a. el_getitem a ''href'') (soup_find_all site_env ''search-12'' ''a'') = [Inr OTHER_URL] \<and>
   \<not> id_is_segment_suffix ''12'' OTHER_URL \<and>
   page_of site_env (BASE_SEARCH_SITE @ ''12'') = Inr ''search-12'' \<and>
   fst (ShoePair_search site_env (JStr ''12'') empty_world) = Inr 1 \<and>
   pages (snd (ShoePair_search site_env (JStr ''12'') empty_world)) 1 = ''item-1234''"
  by code_simp

section \<open>Sentinels\<close>

text \<open>
  Each extraction takes the first element that its selector selects on the active page,
  or the sentinel when there is none.
\<close>

lemma get_shoe_name_selection:
  "get_shoe_name E bs w = name_of_selection (soup_select E (pages w bs) NAME_SELECTOR)"
  by (cases "soup_select E (pages w bs) NAME_SELECTOR")
     (simp_all add: get_shoe_name_def evaluate_soup_select_def name_of_selection_def NULL_NAME_STRING_def)

lemma get_shoe_image_selection:
  "get_shoe_image E bs w = image_of_selection (soup_select E (pages w bs) IMAGE_SELECTOR)"
  by (cases "soup_select E (pages w bs) IMAGE_SELECTOR")
     (simp_all add: get_shoe_image_def evaluate_soup_select_def image_of_selection_def NULL_IMAGE_STRING_def)

text \<open>
  C6, amended. When the name selector matches nothing on the page, the name is
  \<open>NoNameFound\<close>; when the image selector matches nothing, the image URL is
  \<open>NoImageURLFound\<close>, and neither extraction raises for a missing element. When \<open>_search\<close>
  returns a page on which the image selector matches nothing or its first element carries
  a \<open>src\<close> attribute, the item resolves: each field holds its sentinel if its selector
  matched nothing, and the text or the \<open>src\<close> of the first selected element otherwise,
  whether one selector, both or none missed. A run over a kept candidate with this id
  writes these two values to the file of its number.
\<close>

theorem sentinels_for_missing_elements:
  "(soup_select E (pages w bs) NAME_SELECTOR = [] \<longrightarrow> get_shoe_name E bs w = ''NoNameFound'') \<and>
   (soup_select E (pages w bs) IMAGE_SELECTOR = [] \<longrightarrow> get_shoe_image E bs w = Inr ''NoImageURLFound'') \<and>
   (ShoePair_search E ident w = (Inr brow, w1) \<and>
    image_of_selection (soup_select E (pages w1 brow) IMAGE_SELECTOR) = Inr img \<longrightarrow>
      fst (ShoePair_init E ident w)
        = Inr \<lparr>sp_excluded = False,
               sp_name = name_of_selection (soup_select E (pages w1 brow) NAME_SELECTOR),
               sp_image = img\<rparr> \<and>
      (py_getitem idobj ''name'' = Inr name \<and> scan_tags E name tags = Inr None \<and>
       py_getitem idobj ''id'' = Inr ident \<and> can_write E (output_path directory startnum) \<longrightarrow>
         fst (create_all_files E directory [idobj] tags startnum w) = Inr startnum \<and>
         files (snd (create_all_files E directory [idobj] tags startnum w)) (output_path directory startnum)
           = Some (json_dumps E (JObj [(''name'', JStr (name_of_selection
                      (soup_select E (pages w1 brow) NAME_SELECTOR))), (''img'', JStr img)]))))"
proof (intro conjI; rule impI)
  assume "soup_select E (pages w bs) NAME_SELECTOR = []"
  then show "get_shoe_name E bs w = ''NoNameFound''"
    by (simp add: get_shoe_name_selection name_of_selection_def)
next
  assume "soup_select E (pages w bs) IMAGE_SELECTOR = []"
  then show "get_shoe_image E bs w = Inr ''NoImageURLFound''"
    by (simp add: get_shoe_image_selection image_of_selection_def)
next
  let ?n = "name_of_selection (soup_select E (pages w1 brow) NAME_SELECTOR)"
  assume a: "ShoePair_search E ident w = (Inr brow, w1) \<and>
    image_of_selection (soup_select E (pages w1 brow) IMAGE_SELECTOR) = Inr img"
  then have i: "ShoePair_init E ident w
      = (Inr \<lparr>sp_excluded = False, sp_name = ?n, sp_image = img\<rparr>,
         quit brow (print_info (InfoConstructed ?n img) w1))"
    by (simp add: ShoePair_init_def get_shoe_name_selection get_shoe_image_selection Let_def)
  show "fst (ShoePair_init E ident w) = Inr \<lparr>sp_excluded = False, sp_name = ?n, sp_image = img\<rparr> \<and>
      (py_getitem idobj ''name'' = Inr name \<and> scan_tags E name tags = Inr None \<and>
       py_getitem idobj ''id'' = Inr ident \<and> can_write E (output_path directory startnum) \<longrightarrow>
         fst (create_all_files E directory [idobj] tags startnum w) = Inr startnum \<and>
         files (snd (create_all_files E directory [idobj] tags startnum w)) (output_path directory startnum)
           = Some (json_dumps E (JObj [(''name'', JStr ?n), (''img'', JStr img)])))"
    using i
    by (simp add: create_all_files_def create_shoe_pair_def create_file_def output_path_def
          print_info_def quit_def Let_def)
qed

theorem sentinels_for_missing_elements_witness:
  "fst (ShoePair_init site_env (JStr ''678'') empty_world)
     = Inr \<lparr>sp_excluded = False, sp_name = ''NoNameFound'', sp_image = ''NoImageURLFound''\<rparr> \<and>
   fst (create_all_files site_env ''out/''
          [JObj [(''name'', JStr ''Air Jordan 1 Retro High''), (''id'', JStr ''678'')]] [''low''] 5 empty_world)
     = Inr 5 \<and>
   files (snd (create_all_files site_env ''out/''
          [JObj [(''name'', JStr ''Air Jordan 1 Retro High''), (''id'', JStr ''678'')]] [''low''] 5 empty_world))
       ''out/5.json''
     = Some (std_dumps (JObj [(''name'', JStr ''NoNameFound''), (''img'', JStr ''NoImageURLFound'')])) \<and>
   fst (ShoePair_init site_env (JStr ''888'') empty_world)
     = Inr \<lparr>sp_excluded = False, sp_name = ''NoNameFound'', sp_image = ''https://img.example/888.jpg''\<rparr> \<and>
   files (snd (create_all_files site_env ''out/''
          [JObj [(''name'', JStr ''Air Jordan 8''), (''id'', JStr ''888'')]] [] 1 empty_world))
       ''out/1.json''
     = Some (std_dumps (JObj [(''name'', JStr ''NoNameFound''), (''img'', JStr ''https://img.example/888.jpg'')])) \<and>
   fst (ShoePair_init site_env (JStr ''12'') empty_world)
     = Inr \<lparr>sp_excluded = False, sp_name = ''Air Jordan 1234'', sp_image = ''NoImageURLFound''\<rparr> \<and>
   files (snd (create_all_files site_env ''out/''
          [JObj [(''name'', JStr ''Air Jordan 12''), (''id'', JStr ''12'')]] [] 1 empty_world))
       ''out/1.json''
     = Some (std_dumps (JObj [(''name'', JStr ''Air Jordan 1234''), (''img'', JStr ''NoImageURLFound'')])) \<and>
   get_shoe_name site_env 0 (snd (ShoePair_search site_env (JStr ''678'') empty_world)) = ''NoNameFound'' \<and>
   get_shoe_image site_env 0 (snd (ShoePair_search site_env (JStr ''678'') empty_world)) = Inr ''NoImageURLFound''"
proof -
  let ?a = "JObj [(''name'', JStr ''Air Jordan 1 Retro High''), (''id'', JStr ''678'')]"
  let ?b = "JObj [(''name'', JStr ''Air Jordan 8''), (''id'', JStr ''888'')]"
  let ?c = "JObj [(''name'', JStr ''Air Jordan 12''), (''id'', JStr ''12'')]"
  let ?wa = "snd (ShoePair_search site_env (JStr ''678'') empty_world)"
  let ?wb = "snd (ShoePair_search site_env (JStr ''888'') empty_world)"
  let ?wc = "snd (ShoePair_search site_env (JStr ''12'') empty_world)"
  have dumps: "json_dumps site_env = std_dumps" by (simp add: site_env_def)
  have p5: "output_path ''out/'' 5 = ''out/5.json''" by code_simp
  have p1: "output_path ''out/'' 1 = ''out/1.json''" by code_simp
  have w5: "can_write site_env (output_path ''out/'' 5)" by code_simp
  have w1: "can_write site_env (output_path ''out/'' 1)" by code_simp
  have fa: "fst (ShoePair_search site_env (JStr ''678'') empty_world) = Inr 0" by code_simp
  then have sa: "ShoePair_search site_env (JStr ''678'') empty_world = (Inr 0, ?wa)"
    by (simp add: prod_eq_iff)
  have na: "soup_select site_env (pages ?wa 0) NAME_SELECTOR = []" by code_simp
  have ia: "soup_select site_env (pages ?wa 0) IMAGE_SELECTOR = []" by code_simp
  have ta: "scan_tags site_env (JStr ''Air Jordan 1 Retro High'') [''low''] = Inr None" by code_simp
  have fb: "fst (ShoePair_search site_env (JStr ''888'') empty_world) = Inr 0" by code_simp
  then have sb: "ShoePair_search site_env (JStr ''888'') empty_world = (Inr 0, ?wb)"
    by (simp add: prod_eq_iff)
  have nb: "soup_select site_env (pages ?wb 0) NAME_SELECTOR = []" by code_simp
  have ib: "image_of_selection (soup_select site_env (pages ?wb 0) IMAGE_SELECTOR)
              = Inr ''https://img.example/888.jpg''" by code_simp
  have fc: "fst (ShoePair_search site_env (JStr ''12'') empty_world) = Inr 1" by code_simp
  then have sc: "ShoePair_search site_env (JStr ''12'') empty_world = (Inr 1, ?wc)"
    by (simp add: prod_eq_iff)
  have nc: "name_of_selection (soup_select site_env (pages ?wc 1) NAME_SELECTOR) = ''Air Jordan 1234''"
    by code_simp
  have ic: "soup_select site_env (pages ?wc 1) IMAGE_SELECTOR = []" by code_simp
  have A: "fst (ShoePair_init site_env (JStr ''678'') empty_world)
             = Inr \<lparr>sp_excluded = False, sp_name = ''NoNameFound'', sp_image = ''NoImageURLFound''\<rparr> \<and>
           fst (create_all_files site_env ''out/'' [?a] [''low''] 5 empty_world) = Inr 5 \<and>
           files (snd (create_all_files site_env ''out/'' [?a] [''low''] 5 empty_world)) ''out/5.json''
             = Some (std_dumps (JObj [(''name'', JStr ''NoNameFound''), (''img'', JStr ''NoImageURLFound'')])) \<and>
           get_shoe_name site_env 0 ?wa = ''NoNameFound'' \<and>
           get_shoe_image site_env 0 ?wa = Inr ''NoImageURLFound''"
    using sentinels_for_missing_elements [of site_env empty_world 0 "JStr ''678''" 0 ?wa
        "''NoImageURLFound''" ?a "JStr ''Air Jordan 1 Retro High''" "[''low'']" "''out/''" 5]
      sentinels_for_missing_elements [of site_env ?wa 0]
      sa na ia ta w5 p5 dumps
    by (simp add: name_of_selection_def image_of_selection_def)
  have B: "fst (ShoePair_init site_env (JStr ''888'') empty_world)
             = Inr \<lparr>sp_excluded = False, sp_name = ''NoNameFound'', sp_image = ''https://img.example/888.jpg''\<rparr> \<and>
           files (snd (create_all_files site_env ''out/'' [?b] [] 1 empty_world)) ''out/1.json''
             = Some (std_dumps (JObj [(''name'', JStr ''NoNameFound''), (''img'', JStr ''https://img.example/888.jpg'')]))"
    using sentinels_for_missing_elements [of site_env empty_world 0 "JStr ''888''" 0 ?wb
        "''https://img.example/888.jpg''" ?b "JStr ''Air Jordan 8''" "[]" "''out/''" 1]
      sb nb ib w1 p1 dumps
    by (simp add: name_of_selection_def)
  have C: "fst (ShoePair_init site_env (JStr ''12'') empty_world)
             = Inr \<lparr>sp_excluded = False, sp_name = ''Air Jordan 1234'', sp_image = ''NoImageURLFound''\<rparr> \<and>
           files (snd (create_all_files site_env ''out/'' [?c] [] 1 empty_world)) ''out/1.json''
             = Some (std_dumps (JObj [(''name'', JStr ''Air Jordan 1234''), (''img'', JStr ''NoImageURLFound'')]))"
    using sentinels_for_missing_elements [of site_env empty_world 0 "JStr ''12''" 1 ?wc
        "''NoImageURLFound''" ?c "JStr ''Air Jordan 12''" "[]" "''out/''" 1]
      sc nc ic w1 p1 dumps
    by (simp add: image_of_selection_def)
  from A B C show ?thesis by simp
qed

text \<open>
  C6 as stated fails: on the page that \<open>_search\<close> returns for the id 777 the name
  selector matches nothing, and the image selector matches an element without a \<open>src\<close>
  attribute. Resolution raises \<open>KeyError\<close>, and the run over a kept candidate with this id
  ends with the error and leaves no file, instead of writing the sentinel.
\<close>

theorem sentinels_for_missing_elements_counterexample:
  "fst (ShoePair_search site_env (JStr ''777'') empty_world) = Inr 0 \<and>
   soup_select site_env (pages (snd (ShoePair_search site_env (JStr ''777'') empty_world)) 0) NAME_SELECTOR = [] \<and>
   fst (ShoePair_init site_env (JStr ''777'') empty_world) = Inl (KeyError ''src'') \<and>
   fst (create_all_files site_env ''out/''
          [JObj [(''name'', JStr ''Air Jordan 1 Retro High''), (''id'', JStr ''777'')]] [''low''] 5 empty_world)
     = Inl (KeyError ''src'') \<and>
   files (snd (create_all_files site_env ''out/''
          [JObj [(''name'', JStr ''Air Jordan 1 Retro High''), (''id'', JStr ''777'')]] [''low''] 5 empty_world))
       ''out/5.json'' = None"
  by code_simp

section \<open>Numbering the files\<close>

lemma digit_char_inj:
  "a < 10 \<Longrightarrow> b < 10 \<Longrightarrow> ''0123456789'' ! a = ''0123456789'' ! b \<Longrightarrow> a = (b::nat)"
proof -
  assume "a < 10" "b < 10" and e: "''0123456789'' ! a = ''0123456789'' ! b"
  have d: "distinct ''0123456789''" by simp
  from \<open>a < 10\<close> \<open>b < 10\<close> have "a < length ''0123456789''" "b < length ''0123456789''" by simp_all
  with d e show "a = b" by (simp add: nth_eq_iff_index_eq)
qed

lemma digit_char_not_minus: "a < 10 \<Longrightarrow> ''0123456789'' ! a \<noteq> CHR ''-''"
proof -
  assume "a < 10"
  then have "''0123456789'' ! a \<in> set ''0123456789''" by (simp add: nth_mem del: set_simps list.set)
  then show ?thesis by auto
qed

lemma digits_nonempty: "digits n \<noteq> []"
  by (subst digits.simps) simp

lemma digits_last: "last (digits n) = ''0123456789'' ! (n mod 10)"
  by (subst digits.simps) (simp add: digits_nonempty)

lemma digits_butlast: "butlast (digits n) = (if n < 10 then [] else digits (n div 10))"
  by (subst digits.simps) (simp add: digits_nonempty)

lemma digits_inj: "digits n = digits m \<Longrightarrow> n = m"
proof (induction n arbitrary: m rule: digits.induct)
  case (1 n)
  from "1.prems" have l: "''0123456789'' ! (n mod 10) = ''0123456789'' ! (m mod 10)"
    by (metis digits_last)
  then have mod: "n mod 10 = m mod 10" by (intro digit_char_inj) simp_all
  from "1.prems" have b: "butlast (digits n) = butlast (digits m)" by simp
  show ?case
  proof (cases "n < 10")
    case True
    with b have "m < 10"
      using digits_nonempty [of "m div 10"] by (auto simp: digits_butlast split: if_splits)
    with True mod show ?thesis by simp
  next
    case False
    with b have m: "\<not> m < 10" and "digits (n div 10) = digits (m div 10)"
      using digits_nonempty [of "n div 10"] by (auto simp: digits_butlast split: if_splits)
    with "1.IH" False have "n div 10 = m div 10" by simp
    with mod show ?thesis by (metis div_mult_mod_eq)
  qed
qed

lemma digits_hd_not_minus: "hd (digits n) \<noteq> CHR ''-''"
proof (induction n rule: digits.induct)
  case (1 n)
  show ?case
  proof (cases "n < 10")
    case True
    then show ?thesis by (subst digits.simps) (simp add: digit_char_not_minus)
  next
    case False
    with 1 show ?thesis by (subst digits.simps) (simp add: digits_nonempty)
  qed
qed

lemma py_str_int_inj: "py_str_int i = py_str_int j \<Longrightarrow> i = j"
proof -
  assume e: "py_str_int i = py_str_int j"
  have neq: "\<And>a b. CHR ''-'' # digits a \<noteq> digits b"
    using digits_hd_not_minus digits_nonempty by (metis list.sel(1))
  consider "i < 0" "j < 0" | "\<not> i < 0" "\<not> j < 0" | "i < 0" "\<not> j < 0" | "\<not> i < 0" "j < 0" by blast
  then show ?thesis
  proof cases
    case 1
    with e have "nat (- i) = nat (- j)" by (auto simp: py_str_int_def dest: digits_inj)
    with 1 show ?thesis by simp
  next
    case 2
    with e have "nat i = nat j" by (auto simp: py_str_int_def dest: digits_inj)
    with 2 show ?thesis by simp
  next
    case 3
    with e neq show ?thesis by (simp add: py_str_int_def)
  next
    case 4
    with e neq [of "nat (- j)" "nat i"] show ?thesis by (simp add: py_str_int_def)
  qed
qed

lemma output_path_inj: "output_path d i = output_path d j \<Longrightarrow> i = j"
  by (simp add: output_path_def py_str_int_inj)

lemma created_numbers_append: "created_numbers (xs @ ys) = created_numbers xs @ created_numbers ys"
  by (induction xs rule: created_numbers.induct) auto

lemma follow_link_frame:
  "files (snd (follow_link E ident b anchors w)) = files w \<and>
   out (snd (follow_link E ident b anchors w)) = out w"
  by (induction anchors)
     (auto simp: Browser_def visit_def quit_def Let_def split: sum.splits prod.splits)

lemma ShoePair_search_frame:
  "files (snd (ShoePair_search E ident w)) = files w \<and>
   out (snd (ShoePair_search E ident w)) = out w @ [InfoSearching ident]"
proof (cases ident)
  case (JStr s)
  show ?thesis
  proof (cases "page_of E (BASE_SEARCH_SITE @ s)")
    case (Inl e)
    with JStr show ?thesis
      by (simp add: ShoePair_search_def Browser_def visit_def print_info_def PRINT_INFO_def Let_def)
  next
    case (Inr h)
    with JStr show ?thesis
      by (simp add: ShoePair_search_def Browser_def visit_def print_info_def PRINT_INFO_def Let_def
            follow_link_frame)
  qed
qed (simp_all add: ShoePair_search_def Browser_def print_info_def PRINT_INFO_def Let_def)

lemma ShoePair_init_frame:
  "files (snd (ShoePair_init E ident w)) = files w \<and>
   created_numbers (out (snd (ShoePair_init E ident w))) = created_numbers (out w)"
  using ShoePair_search_frame [of E ident w]
  by (auto simp: ShoePair_init_def Let_def quit_def print_info_def PRINT_INFO_def created_numbers_append
        split: prod.splits sum.splits)

lemma ShoePair_init_frame_rel:
  "ShoePair_init E ident w = (r, w1) \<Longrightarrow>
     files w1 = files w \<and> created_numbers (out w1) = created_numbers (out w)"
  using ShoePair_init_frame [of E ident w] by simp

lemma create_shoe_pair_frame:
  "files (snd (create_shoe_pair E idobj tags w)) = files w \<and>
   created_numbers (out (snd (create_shoe_pair E idobj tags w))) = created_numbers (out w)"
  by (auto simp: create_shoe_pair_def print_info_def PRINT_INFO_def created_numbers_append
        split: prod.splits sum.splits option.splits dest: ShoePair_init_frame_rel)

lemma excluded_returns_None:
  "is_excluded E tags idobj \<Longrightarrow> fst (create_shoe_pair E idobj tags w) = Inr None"
  by (auto simp: is_excluded_def create_shoe_pair_def split: sum.splits option.splits)

lemma upt_shift: "map (\<lambda>i. c + 1 + int i) [0..<Suc n] = (c + 1) # map (\<lambda>i. (c + 1) + 1 + int i) [0..<n]"
proof -
  have "[0..<Suc n] = 0 # map Suc [0..<n]" by (simp add: upt_conv_Cons map_Suc_upt del: upt_Suc)
  then show ?thesis by (simp add: comp_def del: upt_Suc)
qed

lemma create_all_loop_numbers:
  assumes "\<forall>idobj\<in>set shoelist. \<not> is_excluded E tags idobj \<longrightarrow>
             (\<forall>w. fst (create_shoe_pair E idobj tags w) = Inr (Some (sp_of idobj)))"
    and "\<forall>i<length (kept_candidates E tags shoelist). can_write E (output_path directory (cur + 1 + int i))"
  shows "fst (create_all_loop E directory shoelist tags cur w)
           = Inr (cur + int (length (kept_candidates E tags shoelist))) \<and>
         files (snd (create_all_loop E directory shoelist tags cur w))
           = emit_numbered E directory sp_of (cur + 1) (kept_candidates E tags shoelist) (files w) \<and>
         created_numbers (out (snd (create_all_loop E directory shoelist tags cur w)))
           = created_numbers (out w) @
             map (\<lambda>i. cur + 1 + int i) [0..<length (kept_candidates E tags shoelist)]"
  using assms
proof (induction shoelist arbitrary: cur w)
  case Nil
  then show ?case by (simp add: kept_candidates_def)
next
  case (Cons idobj rest)
  obtain r w1 where c: "create_shoe_pair E idobj tags w = (r, w1)"
    by (cases "create_shoe_pair E idobj tags w")
  from create_shoe_pair_frame [of E idobj tags w] c
  have fr: "files w1 = files w" "created_numbers (out w1) = created_numbers (out w)" by simp_all
  have IHpre: "\<forall>idobj\<in>set rest. \<not> is_excluded E tags idobj \<longrightarrow>
             (\<forall>w. fst (create_shoe_pair E idobj tags w) = Inr (Some (sp_of idobj)))"
    using Cons.prems(1) by simp
  show ?case
  proof (cases "is_excluded E tags idobj")
    case True
    with excluded_returns_None [of E tags idobj w] c have r: "r = Inr None" by simp
    from True have k: "kept_candidates E tags (idobj # rest) = kept_candidates E tags rest"
      by (simp add: kept_candidates_def)
    from Cons.prems(2) k have "\<forall>i<length (kept_candidates E tags rest).
        can_write E (output_path directory (cur + 1 + int i))" by simp
    from Cons.IH [OF IHpre this, of w1] c r k fr show ?thesis by simp
  next
    case False
    with Cons.prems(1) c have r: "r = Inr (Some (sp_of idobj))" by (metis fst_conv list.set_intros(1))
    from False have k: "kept_candidates E tags (idobj # rest) = idobj # kept_candidates E tags rest"
      by (simp add: kept_candidates_def)
    let ?n = "length (kept_candidates E tags rest)"
    from Cons.prems(2) k have cw: "can_write E (output_path directory (cur + 1))"
      by (metis add.right_neutral length_Cons of_nat_0 zero_less_Suc)
    have cws: "\<forall>i<?n. can_write E (output_path directory ((cur + 1) + 1 + int i))"
    proof (intro allI impI)
      fix i assume "i < ?n"
      then have "Suc i < length (kept_candidates E tags (idobj # rest))" using k by simp
      with Cons.prems(2) have "can_write E (output_path directory (cur + 1 + int (Suc i)))" by blast
      then show "can_write E (output_path directory ((cur + 1) + 1 + int i))" by (simp add: add.assoc)
    qed
    define w2 where "w2 = print_info (InfoCreated (cur + 1))
       (w1\<lparr>files := (files w1)(directory @ py_str_int (cur + 1) @ ''.json'' \<mapsto>
           json_dumps E (JObj [(''name'', JStr (sp_name (sp_of idobj))), (''img'', JStr (sp_image (sp_of idobj)))]))\<rparr>)"
    have step: "create_all_loop E directory (idobj # rest) tags cur w
                  = create_all_loop E directory rest tags (cur + 1) w2"
      using c r cw by (simp add: create_file_def output_path_def Let_def w2_def)
    have f2: "files w2 = (files w)(output_path directory (cur + 1) \<mapsto> json_dumps E (output_record (sp_of idobj)))"
      using fr by (simp add: w2_def print_info_def output_path_def output_record_def)
    have o2: "created_numbers (out w2) = created_numbers (out w) @ [cur + 1]"
      using fr by (simp add: w2_def print_info_def PRINT_INFO_def created_numbers_append)
    from Cons.IH [OF IHpre cws, of w2]
    have ih1: "fst (create_all_loop E directory rest tags (cur + 1) w2) = Inr (cur + 1 + int ?n)"
      and ih2: "files (snd (create_all_loop E directory rest tags (cur + 1) w2))
                  = emit_numbered E directory sp_of (cur + 1 + 1) (kept_candidates E tags rest) (files w2)"
      and ih3: "created_numbers (out (snd (create_all_loop E directory rest tags (cur + 1) w2)))
                  = created_numbers (out w2) @ map (\<lambda>i. cur + 1 + 1 + int i) [0..<?n]"
      by simp_all
    have c1: "fst (create_all_loop E directory (idobj # rest) tags cur w)
                = Inr (cur + int (length (kept_candidates E tags (idobj # rest))))"
      unfolding step k using ih1 by simp
    have c2: "files (snd (create_all_loop E directory (idobj # rest) tags cur w))
                = emit_numbered E directory sp_of (cur + 1) (kept_candidates E tags (idobj # rest)) (files w)"
      unfolding step k using ih2 f2 by simp
    have "map (\<lambda>i. cur + 1 + int i) [0..<length (idobj # kept_candidates E tags rest)]
            = (cur + 1) # map (\<lambda>i. cur + 1 + 1 + int i) [0..<?n]"
      using upt_shift [of cur ?n] by (simp only: length_Cons)
    then have c3: "created_numbers (out (snd (create_all_loop E directory (idobj # rest) tags cur w)))
                = created_numbers (out w) @
                  map (\<lambda>i. cur + 1 + int i) [0..<length (kept_candidates E tags (idobj # rest))]"
      unfolding step k using ih3 o2 by (simp only: append_assoc append_Cons append_Nil)
    from c1 c2 c3 show ?thesis by blast
  qed
qed

lemma emit_numbered_below:
  "j < k \<Longrightarrow> emit_numbered E d sp_of k ss fs (output_path d j) = fs (output_path d j)"
proof (induction ss arbitrary: k fs)
  case Nil
  then show ?case by simp
next
  case (Cons s ss)
  from Cons.prems have "output_path d k \<noteq> output_path d j" using output_path_inj by blast
  with Cons show ?case by simp
qed

lemma emit_numbered_nth:
  "i < length ss \<Longrightarrow>
     emit_numbered E d sp_of k ss fs (output_path d (k + int i)) = Some (json_dumps E (output_record (sp_of (ss ! i))))"
proof (induction ss arbitrary: k fs i)
  case Nil
  then show ?case by simp
next
  case (Cons s ss)
  show ?case
  proof (cases i)
    case 0
    then show ?thesis by (simp add: emit_numbered_below)
  next
    case (Suc j)
    with Cons.prems have "j < length ss" by simp
    from Cons.IH [OF this, of "k + 1"]
    have "emit_numbered E d sp_of k (s # ss) fs (output_path d (k + 1 + int j))
            = Some (json_dumps E (output_record (sp_of (ss ! j))))"
      by simp
    moreover have "k + int i = k + 1 + int j" using Suc by simp
    ultimately show ?thesis using Suc by (simp only: nth_Cons_Suc)
  qed
qed

lemma emit_numbered_other:
  "p \<notin> (\<lambda>i. output_path d (k + int i)) ` {..<length ss} \<Longrightarrow> emit_numbered E d sp_of k ss fs p = fs p"
proof (induction ss arbitrary: k fs)
  case Nil
  then show ?case by simp
next
  case (Cons s ss)
  have "output_path d (k + int 0) \<in> (\<lambda>i. output_path d (k + int i)) ` {..<length (s # ss)}"
    by (rule imageI) simp
  with Cons.prems have "p \<noteq> output_path d k" by auto
  moreover have "p \<notin> (\<lambda>i. output_path d (k + 1 + int i)) ` {..<length ss}"
  proof
    assume "p \<in> (\<lambda>i. output_path d (k + 1 + int i)) ` {..<length ss}"
    then obtain i where "i < length ss" "p = output_path d (k + 1 + int i)" by auto
    then have "Suc i < length (s # ss)" "p = output_path d (k + int (Suc i))" by (simp_all add: add.assoc)
    with Cons.prems show False by (metis imageI lessThan_iff)
  qed
  ultimately show ?case using Cons.IH [of "k + 1"] by simp
qed

lemma ShoePair_init_on_page:
  assumes "fst (ShoePair_search E ident w) = Inr b"
    and "pages (snd (ShoePair_search E ident w)) b = page"
    and "soup_select E page NAME_SELECTOR = names"
    and "soup_select E page IMAGE_SELECTOR = images"
  shows "fst (ShoePair_init E ident w) =
           (case (case images of [] \<Rightarrow> Inr NULL_IMAGE_STRING | elem # r \<Rightarrow> el_getitem elem ''src'') of
              Inl e \<Rightarrow> Inl e
            | Inr img \<Rightarrow>
                Inr \<lparr>sp_excluded = False,
                     sp_name = (case names of [] \<Rightarrow> NULL_NAME_STRING | elem # r \<Rightarrow> el_text elem),
                     sp_image = img\<rparr>)"
  using assms
  by (cases "ShoePair_search E ident w")
     (auto simp: ShoePair_init_def get_shoe_name_def get_shoe_image_def evaluate_soup_select_def Let_def
        split: sum.splits list.splits)

lemma create_shoe_pair_kept:
  assumes "py_getitem idobj ''name'' = Inr name" and "scan_tags E name tags = Inr None"
    and "py_getitem idobj ''id'' = Inr ident" and "fst (ShoePair_init E ident w) = Inr sp"
  shows "fst (create_shoe_pair E idobj tags w) = Inr (Some sp)"
  using assms by (cases "ShoePair_init E ident w") (auto simp: create_shoe_pair_def)

lemma kept_candidates_no_tags: "kept_candidates E [] shoelist = shoelist"
  by (induction shoelist) (auto simp: kept_candidates_def is_excluded_def split: sum.splits)

text \<open>
  C2, as the code has it. Let every candidate that is not excluded resolve to a pair,
  whatever the state (\<open>create_shoe_pair\<close> returns \<open>sp_of idobj\<close>), and let the output files be
  writable. Then \<open>create_all_files\<close> returns \<open>startnum - 1\<close> plus the number of kept
  candidates; the i-th kept candidate, in catalog order, has its record in the file numbered
  \<open>startnum + i\<close>; no other file changes; these files are distinct; the \<open>Created file\<close> lines
  count \<open>startnum\<close>, \<open>startnum + 1\<close>, ... without a gap; and with an empty tag list every
  candidate is kept.
\<close>

theorem create_all_files_numbers:
  assumes "\<forall>idobj\<in>set shoelist. \<not> is_excluded E tags idobj \<longrightarrow>
             (\<forall>w. fst (create_shoe_pair E idobj tags w) = Inr (Some (sp_of idobj)))"
    and "\<forall>i<length (kept_candidates E tags shoelist). can_write E (output_path directory (startnum + int i))"
  shows "fst (create_all_files E directory shoelist tags startnum w)
           = Inr (startnum - 1 + int (length (kept_candidates E tags shoelist))) \<and>
         (\<forall>i<length (kept_candidates E tags shoelist).
            files (snd (create_all_files E directory shoelist tags startnum w))
                  (output_path directory (startnum + int i))
              = Some (json_dumps E (output_record (sp_of (kept_candidates E tags shoelist ! i))))) \<and>
         (\<forall>p. p \<notin> (\<lambda>i. output_path directory (startnum + int i)) ` {..<length (kept_candidates E tags shoelist)} \<longrightarrow>
            files (snd (create_all_files E directory shoelist tags startnum w)) p = files w p) \<and>
         distinct (map (\<lambda>i. output_path directory (startnum + int i))
                     [0..<length (kept_candidates E tags shoelist)]) \<and>
         created_numbers (out (snd (create_all_files E directory shoelist tags startnum w)))
           = created_numbers (out w) @
             map (\<lambda>i. startnum + int i) [0..<length (kept_candidates E tags shoelist)] \<and>
         kept_candidates E [] shoelist = shoelist"
proof -
  let ?kept = "kept_candidates E tags shoelist"
  have cw: "\<forall>i<length ?kept. can_write E (output_path directory (startnum - 1 + 1 + int i))"
    using assms(2) by simp
  from create_all_loop_numbers [OF assms(1) cw, of w]
  have r: "fst (create_all_files E directory shoelist tags startnum w) = Inr (startnum - 1 + int (length ?kept))"
    and f: "files (snd (create_all_files E directory shoelist tags startnum w))
              = emit_numbered E directory sp_of startnum ?kept (files w)"
    and c: "created_numbers (out (snd (create_all_files E directory shoelist tags startnum w)))
              = created_numbers (out w) @ map (\<lambda>i. startnum + int i) [0..<length ?kept]"
    by (simp_all add: create_all_files_def)
  have d: "distinct (map (\<lambda>i. output_path directory (startnum + int i)) [0..<length ?kept])"
    by (auto simp: distinct_map inj_on_def dest: output_path_inj)
  from r f c d show ?thesis
    by (simp add: emit_numbered_nth emit_numbered_other kept_candidates_no_tags)
qed

text \<open>
  Three candidates, the second excluded by the tag retro, numbered from 7: the files 7 and
  8 are written, the second for a candidate that resolves to the sentinels.
\<close>

theorem create_all_files_numbers_witness:
  "kept_candidates site_env [''retro'']
     [JObj [(''name'', JStr ''Air Jordan 1 Low''), (''id'', JStr ''012345'')],
      JObj [(''name'', JStr ''Air Jordan 1 Retro High''), (''id'', JStr ''678'')],
      JObj [(''name'', JStr ''Air Jordan 2''), (''id'', JStr ''678'')]]
     = [JObj [(''name'', JStr ''Air Jordan 1 Low''), (''id'', JStr ''012345'')],
        JObj [(''name'', JStr ''Air Jordan 2''), (''id'', JStr ''678'')]] \<and>
   fst (create_all_files site_env ''out/''
     [JObj [(''name'', JStr ''Air Jordan 1 Low''), (''id'', JStr ''012345'')],
      JObj [(''name'', JStr ''Air Jordan 1 Retro High''), (''id'', JStr ''678'')],
      JObj [(''name'', JStr ''Air Jordan 2''), (''id'', JStr ''678'')]] [''retro''] 7 empty_world) = Inr 8 \<and>
   created_numbers (out (snd (create_all_files site_env ''out/''
     [JObj [(''name'', JStr ''Air Jordan 1 Low''), (''id'', JStr ''012345'')],
      JObj [(''name'', JStr ''Air Jordan 1 Retro High''), (''id'', JStr ''678'')],
      JObj [(''name'', JStr ''Air Jordan 2''), (''id'', JStr ''678'')]] [''retro''] 7 empty_world))) = [7, 8] \<and>
   files (snd (create_all_files site_env ''out/''
     [JObj [(''name'', JStr ''Air Jordan 1 Low''), (''id'', JStr ''012345'')],
      JObj [(''name'', JStr ''Air Jordan 1 Retro High''), (''id'', JStr ''678'')],
      JObj [(''name'', JStr ''Air Jordan 2''), (''id'', JStr ''678'')]] [''retro''] 7 empty_world)) ''out/8.json''
     = Some (std_dumps (JObj [(''name'', JStr ''NoNameFound''), (''img'', JStr ''NoImageURLFound'')]))"
proof -
  let ?A = "JObj [(''name'', JStr ''Air Jordan 1 Low''), (''id'', JStr ''012345'')]"
  let ?B = "JObj [(''name'', JStr ''Air Jordan 1 Retro High''), (''id'', JStr ''678'')]"
  let ?C = "JObj [(''name'', JStr ''Air Jordan 2''), (''id'', JStr ''678'')]"
  let ?low = "\<lparr>sp_excluded = False, sp_name = ''Air Jordan 1 Low'', sp_image = ''https://img.example/012345.jpg''\<rparr>"
  let ?none = "\<lparr>sp_excluded = False, sp_name = ''NoNameFound'', sp_image = ''NoImageURLFound''\<rparr>"
  let ?sp_of = "\<lambda>idobj. if idobj = ?A then ?low else ?none"
  have kept: "kept_candidates site_env [''retro''] [?A, ?B, ?C] = [?A, ?C]" by code_simp
  have exB: "is_excluded site_env [''retro''] ?B" by code_simp
  have resA: "fst (create_shoe_pair site_env ?A [''retro''] w) = Inr (Some ?low)" for w
  proof -
    have p: "page_of site_env (BASE_SEARCH_SITE @ ''012345'') = Inr ''search-012345''" by code_simp
    have h: "list_all has_href (takeWhile (\<lambda>a. \<not> link_matches ''012345'' a)
               (soup_find_all site_env ''search-012345'' ''a''))" by code_simp
    have f: "find (link_matches ''012345'') (soup_find_all site_env ''search-012345'' ''a'')
               = Some \<lparr>el_text = ''Air Jordan 1 Low'', el_attrs = [(''href'', ITEM_URL)]\<rparr>" by code_simp
    have g: "el_getitem \<lparr>el_text = ''Air Jordan 1 Low'', el_attrs = [(''href'', ITEM_URL)]\<rparr> ''href'' = Inr ITEM_URL"
      by (simp add: el_getitem_def)
    have i: "page_of site_env ITEM_URL = Inr ''item-012345''" by code_simp
    from ShoePair_search_page [OF p h, of w] f g i
    obtain b where b: "fst (ShoePair_search site_env (JStr ''012345'') w) = Inr b"
        "pages (snd (ShoePair_search site_env (JStr ''012345'') w)) b = ''item-012345''"
      by auto
    have n: "soup_select site_env ''item-012345'' NAME_SELECTOR
               = [\<lparr>el_text = ''Air Jordan 1 Low'', el_attrs = []\<rparr>]" by code_simp
    have m: "soup_select site_env ''item-012345'' IMAGE_SELECTOR
               = [\<lparr>el_text = [], el_attrs = [(''class'', ''product-img''), (''src'', ''https://img.example/012345.jpg'')]\<rparr>]"
      by code_simp
    from ShoePair_init_on_page [OF b n m]
    have "fst (ShoePair_init site_env (JStr ''012345'') w) = Inr ?low" by (simp add: el_getitem_def)
    moreover have "scan_tags site_env (JStr ''Air Jordan 1 Low'') [''retro''] = Inr None" by code_simp
    ultimately show ?thesis by (intro create_shoe_pair_kept [where name = "JStr ''Air Jordan 1 Low''"]) simp_all
  qed
  have resC: "fst (create_shoe_pair site_env ?C [''retro''] w) = Inr (Some ?none)" for w
  proof -
    have p: "page_of site_env (BASE_SEARCH_SITE @ ''678'') = Inr ''search-678''" by code_simp
    have h: "list_all has_href (takeWhile (\<lambda>a. \<not> link_matches ''678'' a)
               (soup_find_all site_env ''search-678'' ''a''))" by code_simp
    have f: "find (link_matches ''678'') (soup_find_all site_env ''search-678'' ''a'') = None" by code_simp
    from ShoePair_search_page [OF p h, of w] f
    obtain b where b: "fst (ShoePair_search site_env (JStr ''678'') w) = Inr b"
        "pages (snd (ShoePair_search site_env (JStr ''678'') w)) b = ''search-678''"
      by auto
    have n: "soup_select site_env ''search-678'' NAME_SELECTOR = []" by code_simp
    have m: "soup_select site_env ''search-678'' IMAGE_SELECTOR = []" by code_simp
    from ShoePair_init_on_page [OF b n m]
    have "fst (ShoePair_init site_env (JStr ''678'') w) = Inr ?none"
      by (simp add: NULL_NAME_STRING_def NULL_IMAGE_STRING_def)
    moreover have "scan_tags site_env (JStr ''Air Jordan 2'') [''retro''] = Inr None" by code_simp
    ultimately show ?thesis by (intro create_shoe_pair_kept [where name = "JStr ''Air Jordan 2''"]) simp_all
  qed
  have AC: "?A \<noteq> ?C" by simp
  have h1: "\<forall>idobj\<in>set [?A, ?B, ?C]. \<not> is_excluded site_env [''retro''] idobj \<longrightarrow>
             (\<forall>w. fst (create_shoe_pair site_env idobj [''retro''] w) = Inr (Some (?sp_of idobj)))"
    using exB resA resC by simp
  have h2: "\<forall>i<length (kept_candidates site_env [''retro''] [?A, ?B, ?C]).
              can_write site_env (output_path ''out/'' (7 + int i))"
    by (simp add: site_env_def output_path_def)
  have o: "output_path ''out/'' (7 + int 1) = ''out/8.json''" by code_simp
  have j: "json_dumps site_env = std_dumps" by (simp add: site_env_def)
  from create_all_files_numbers [OF h1 h2, of empty_world]
  have r: "fst (create_all_files site_env ''out/'' [?A, ?B, ?C] [''retro''] 7 empty_world)
             = Inr (7 - 1 + int (length (kept_candidates site_env [''retro''] [?A, ?B, ?C])))"
    and f: "\<forall>i<length (kept_candidates site_env [''retro''] [?A, ?B, ?C]).
              files (snd (create_all_files site_env ''out/'' [?A, ?B, ?C] [''retro''] 7 empty_world))
                    (output_path ''out/'' (7 + int i))
                = Some (json_dumps site_env (output_record (?sp_of (kept_candidates site_env [''retro''] [?A, ?B, ?C] ! i))))"
    and c: "created_numbers (out (snd (create_all_files site_env ''out/'' [?A, ?B, ?C] [''retro''] 7 empty_world)))
              = created_numbers (out empty_world) @
                map (\<lambda>i. 7 + int i) [0..<length (kept_candidates site_env [''retro''] [?A, ?B, ?C])]"
    by blast+
  from f kept have f1: "files (snd (create_all_files site_env ''out/'' [?A, ?B, ?C] [''retro''] 7 empty_world))
                    (output_path ''out/'' (7 + int 1))
                = Some (json_dumps site_env (output_record (?sp_of ?C)))"
    by (metis One_nat_def length_Cons lessI list.size(3) nth_Cons_0 nth_Cons_Suc)
  have c': "created_numbers (out (snd (create_all_files site_env ''out/'' [?A, ?B, ?C] [''retro''] 7 empty_world))) = [7, 8]"
    using c kept by (simp add: empty_world_def upt_rec)
  from r kept f1 o j c' show ?thesis by (simp add: output_record_def)
qed

text \<open>
  C2 as stated fails: a candidate without a name is not excluded, yet \<open>idobj["name"]\<close>
  raises \<open>KeyError\<close>; with one such candidate and no tag, no file is created and nothing is
  returned.
\<close>

theorem create_all_files_numbers_counterexample:
  "kept_candidates site_env [] [JObj [(''id'', JStr ''012345'')]] = [JObj [(''id'', JStr ''012345'')]] \<and>
   fst (create_all_files site_env ''out/'' [JObj [(''id'', JStr ''012345'')]] [] 1 empty_world)
     = Inl (KeyError ''name'') \<and>
   files (snd (create_all_files site_env ''out/'' [JObj [(''id'', JStr ''012345'')]] [] 1 empty_world))
     ''out/1.json'' = None"
  by code_simp

section \<open>The catalog list\<close>

lemma until_bracket_group:
  "until_bracket cs = Some g \<Longrightarrow>
     prefix (g @ '']'') cs \<and> CHR '']'' \<notin> set g \<and> CHR 0x0A \<notin> set g"
  by (induction cs arbitrary: g) (auto split: if_splits option.splits)

lemma impressions_search_group:
  "impressions_search s = Some g \<Longrightarrow>
     sublist (IMPRESSIONS_MARKER @ g @ '']'') s \<and> CHR '']'' \<notin> set g \<and> CHR 0x0A \<notin> set g"
proof (induction s)
  case Nil
  then show ?case by simp
next
  case (Cons c cs)
  show ?case
  proof (cases "prefix IMPRESSIONS_MARKER (c # cs) \<and>
                until_bracket (drop (length IMPRESSIONS_MARKER) (c # cs)) \<noteq> None")
    case True
    with Cons.prems have u0: "until_bracket (drop (length IMPRESSIONS_MARKER) (c # cs)) = Some g"
      by auto
    from True obtain r where r: "c # cs = IMPRESSIONS_MARKER @ r" by (auto simp: prefix_def)
    with u0 have u: "until_bracket r = Some g" by simp
    from until_bracket_group [OF u] obtain t where "r = g @ '']'' @ t" by (auto simp: prefix_def)
    with r have "c # cs = [] @ (IMPRESSIONS_MARKER @ g @ '']'') @ t" by simp
    then have "sublist (IMPRESSIONS_MARKER @ g @ '']'') (c # cs)" unfolding sublist_def by blast
    with until_bracket_group [OF u] show ?thesis by simp
  next
    case False
    with Cons.prems have "impressions_search cs = Some g" by (auto split: if_splits option.splits)
    with Cons.IH show ?thesis by (auto simp: sublist_Cons_right)
  qed
qed

text \<open>
  C3, as the code has it. When the pattern is found in no script element,
  \<open>get_impressions_list\<close> returns the list holding the one object \<open>{"name": "NULL"}\<close> and
  raises nothing. When it is found, the result is that of \<open>json.loads\<close> on the bracketed
  text, which follows the marker in the script and holds no closing bracket: if that text
  is no JSON, the \<open>JSONDecodeError\<close> is the result. (What a run does with the fallback list
  is left out here.)
\<close>

theorem get_impressions_list_fallback:
  "(list_all (\<lambda>tag. impressions_search (el_text tag) = None) (soup_find_all E bsoup ''script'') \<longrightarrow>
      get_impressions_list E bsoup w = (Inr (JArr [JObj [(''name'', JStr ''NULL'')]]), w)) \<and>
   (find (\<lambda>tag. impressions_search (el_text tag) \<noteq> None) (soup_find_all E bsoup ''script'') = Some script_tag \<and>
    impressions_search (el_text script_tag) = Some part \<longrightarrow>
      fst (get_impressions_list E bsoup w) = json_loads E (''['' @ part @ '']'') \<and>
      sublist (IMPRESSIONS_MARKER @ part @ '']'') (el_text script_tag))"
proof (rule conjI; rule impI)
  assume "list_all (\<lambda>tag. impressions_search (el_text tag) = None) (soup_find_all E bsoup ''script'')"
  then have "find (\<lambda>tag. impressions_search (el_text tag) \<noteq> None) (soup_find_all E bsoup ''script'') = None"
    by (auto simp: find_None_iff list_all_iff)
  then show "get_impressions_list E bsoup w = (Inr (JArr [JObj [(''name'', JStr ''NULL'')]]), w)"
    by (simp add: get_impressions_list_def FALLBACK_LIST_def)
next
  assume a: "find (\<lambda>tag. impressions_search (el_text tag) \<noteq> None) (soup_find_all E bsoup ''script'') = Some script_tag \<and>
    impressions_search (el_text script_tag) = Some part"
  then have "fst (get_impressions_list E bsoup w) = json_loads E (''['' @ part @ '']'')"
    by (auto simp: get_impressions_list_def Let_def split: sum.splits)
  with a impressions_search_group [of "el_text script_tag" part]
  show "fst (get_impressions_list E bsoup w) = json_loads E (''['' @ part @ '']'') \<and>
      sublist (IMPRESSIONS_MARKER @ part @ '']'') (el_text script_tag)" by simp
qed

text \<open>
  A catalog page without the list, and one with a list of two candidates.
\<close>

theorem get_impressions_list_fallback_witness:
  "get_impressions_list site_env ''catalog-plain'' empty_world
     = (Inr (JArr [JObj [(''name'', JStr ''NULL'')]]), empty_world) \<and>
   fst (get_impressions_list site_env ''catalog'' empty_world)
     = Inr (JArr [JObj [(''name'', JStr ''Air Jordan 1 Retro High''), (''id'', JStr ''678'')],
                  JObj [(''name'', JStr ''Air Jordan 1 Low''), (''id'', JStr ''012345'')]])"
proof -
  have a: "list_all (\<lambda>tag. impressions_search (el_text tag) = None)
             (soup_find_all site_env ''catalog-plain'' ''script'')" by code_simp
  let ?tag = "(soup_find_all site_env ''catalog'' ''script'') ! 1"
  let ?part = "dumps_items [JObj [(''name'', JStr ''Air Jordan 1 Retro High''), (''id'', JStr ''678'')],
                         JObj [(''name'', JStr ''Air Jordan 1 Low''), (''id'', JStr ''012345'')]]"
  have b: "find (\<lambda>tag. impressions_search (el_text tag) \<noteq> None) (soup_find_all site_env ''catalog'' ''script'')
             = Some ?tag" by code_simp
  have c: "impressions_search (el_text ?tag) = Some ?part" by code_simp
  have d: "json_loads site_env (''['' @ ?part @ '']'')
     = Inr (JArr [JObj [(''name'', JStr ''Air Jordan 1 Retro High''), (''id'', JStr ''678'')],
                  JObj [(''name'', JStr ''Air Jordan 1 Low''), (''id'', JStr ''012345'')]])" by code_simp
  show ?thesis
    using get_impressions_list_fallback [of site_env "''catalog-plain''" empty_world]
      get_impressions_list_fallback [of site_env "''catalog''" empty_world ?tag ?part] a b c d
    by simp
qed

text \<open>
  C3 as stated fails twice. A list that is no JSON makes \<open>get_impressions_list\<close> raise
  \<open>JSONDecodeError\<close>, not return the fallback list. And a run over the fallback list writes
  no file: its object has no \<open>id\<close>, so \<open>create_shoe_pair\<close> raises \<open>KeyError\<close>.
\<close>

theorem get_impressions_list_fallback_counterexample:
  "map el_text (soup_find_all site_env ''catalog-broken'' ''script'')
     = [''dataLayer.push({'' @ IMPRESSIONS_MARKER @ ''oops]});''] \<and>
   json_loads site_env ''[oops]'' = Inl JSONDecodeError \<and>
   fst (get_impressions_list site_env ''catalog-broken'' empty_world) = Inl JSONDecodeError \<and>
   fst (get_impressions_list site_env ''catalog-plain'' empty_world) = Inr (JArr [JObj [(''name'', JStr ''NULL'')]]) \<and>
   fst (create_all_files site_env ''out/'' [JObj [(''name'', JStr ''NULL'')]] [] 1 empty_world)
     = Inl (KeyError ''id'') \<and>
   files (snd (create_all_files site_env ''out/'' [JObj [(''name'', JStr ''NULL'')]] [] 1 empty_world))
     ''out/1.json'' = None"
  by code_simp

section \<open>The starting number typed by the user\<close>

lemma py_int_raises_ValueError: "py_int s = Inl e \<Longrightarrow> e = ValueError"
  by (simp add: py_int_def Let_def split: if_splits)

text \<open>
  \<open>int\<close> raises \<open>ValueError\<close> on a string that is no integer, which \<open>except TypeError\<close> does
  not handle: whatever the user types for the number, if it is no integer the function
  raises, prints no warning and writes no file.
\<close>

lemma prompt_execution_values_invalid_start:
  assumes "stdin w = ej_name # site_dir # typed_dir # use_tags # typed_start # rest"
    and "use_tags \<noteq> ''y''" and "py_int typed_start = Inl e"
  shows "fst (prompt_execution_values E w) = Inl ValueError \<and>
         files (snd (prompt_execution_values E w)) = files w \<and>
         out (snd (prompt_execution_values E w)) = out w"
  using assms py_int_raises_ValueError [OF assms(3)]
  by (simp add: prompt_execution_values_def input_def)

text \<open>
  C9 does not hold of the code. The user answers the prompts with a path, a site
  directory, an output directory, \<open>n\<close> for the tags and \<open>abc\<close> for the starting number:
  \<open>prompt_execution_values\<close> raises \<open>ValueError\<close>; the start is not set to 1, no warning is
  printed and no descriptor file is created.
\<close>

theorem prompt_execution_values_start_not_defaulted:
  "py_int ''abc'' = Inl ValueError \<and>
   fst (prompt_execution_values site_env
          (empty_world\<lparr>stdin := [''exec.json'', ''air-jordans/air-jordan-1'', ''out/'', ''n'', ''abc'']\<rparr>))
     = Inl ValueError \<and>
   files (snd (prompt_execution_values site_env
          (empty_world\<lparr>stdin := [''exec.json'', ''air-jordans/air-jordan-1'', ''out/'', ''n'', ''abc'']\<rparr>)))
     ''exec.json'' = None \<and>
   out (snd (prompt_execution_values site_env
          (empty_world\<lparr>stdin := [''exec.json'', ''air-jordans/air-jordan-1'', ''out/'', ''n'', ''abc'']\<rparr>))) = []"
  by code_simp

end
